theory Spec2Isabelle
  imports Complex_Main
begin

section \<open>Conventions of the embedding\<close>

text \<open>
  The repository is a Python program over an SQLAlchemy session.  Its functions are
  embedded as HOL functions over explicit state:
  \<^item> a Python \<open>float\<close> is the \<open>real\<close> it denotes, and the arithmetic of the signal engine
    and of the price band rounds every operation to the nearest binary64 number, as the
    interpreter does (section Binary64 arithmetic); infinities and NaN are not modelled.
    The derived metrics of a trade take part in no comparison and are stated over the
    exact difference and quotient;
  \<^item> a \<open>datetime\<close> is an \<open>int\<close>, the number of microseconds since the epoch (the resolution
    of \<open>datetime\<close>), and every \<open>datetime.utcnow()\<close> is a parameter of the function that
    reads the clock;
  \<^item> a \<open>str\<close> is a \<open>string\<close> holding the UTF-8 bytes of the text; \<open>str.lower()\<close>, the
    interpreter's Unicode case mapping, is a parameter of the function that calls it;
  \<^item> a table is the list of its rows in row order, an ORM object is a record of its
    columns, and \<open>Optional[T]\<close> is \<open>T option\<close>;
  \<^item> an exception is a value of \<open>py_error\<close> on the left of a sum.
\<close>

type_synonym time = int

definition timedelta_hours :: "int \<Rightarrow> int" where
  "timedelta_hours h = h * 3600000000"

definition timedelta_days :: "int \<Rightarrow> int" where
  \<comment> \<open>\<open>timedelta.days\<close>: the normalised day count, rounded towards minus infinity\<close>
  "timedelta_days d = d div 86400000000"

datatype py_error = ZeroDivisionError

section \<open>db/models.py: Trade\<close>

record Trade =
  trade_id :: int
  trade_signal_id :: "int option"
  trade_market_hash_name :: string
  trade_direction :: string
  buy_market :: string
  sell_market :: "string option"
  buy_price_usd :: real
  sell_price_usd :: "real option"
  buy_time :: time
  sell_time :: "time option"
  trade_note :: "string option"

definition py_truediv :: "real \<Rightarrow> real \<Rightarrow> py_error + real" where
  \<comment> \<open>Python's \<open>/\<close> on floats raises when the divisor is zero\<close>
  "py_truediv a b = (if b = 0 then Inl ZeroDivisionError else Inr (a / b))"

definition trade_roi_pct :: "Trade \<Rightarrow> py_error + real option" where
  "trade_roi_pct t =
     (case sell_price_usd t of
        None \<Rightarrow> Inr None
      | Some sell \<Rightarrow>
          (case py_truediv (sell - buy_price_usd t) (buy_price_usd t) of
             Inl e \<Rightarrow> Inl e
           | Inr r \<Rightarrow> Inr (Some r)))"

definition profit_usd :: "Trade \<Rightarrow> real option" where
  "profit_usd t =
     (case sell_price_usd t of
        None \<Rightarrow> None
      | Some sell \<Rightarrow> Some (sell - buy_price_usd t))"

definition hold_days :: "Trade \<Rightarrow> int option" where
  "hold_days t =
     (case sell_time t of
        None \<Rightarrow> None
      | Some st \<Rightarrow> Some (timedelta_days (st - buy_time t)))"

section \<open>Binary64 arithmetic\<close>

text \<open>
  A finite binary64 number has a significand of 53 bits.  \<open>round_binary64\<close> takes a real to
  the nearest such number, ties to the even significand: \<open>exponent x\<close> is the \<open>e\<close> with
  \<open>2 ^ e \<le> \<bar>x\<bar> < 2 ^ (e + 1)\<close>, the spacing of the numbers around \<open>x\<close> is
  \<open>2 ^ (e - 52)\<close>, and below \<open>2 ^ (- 1022)\<close> the spacing stays \<open>2 ^ (- 1074)\<close>.  Each float
  operation of the source is the exact operation followed by this rounding.
\<close>

fun bit_length :: "nat \<Rightarrow> nat" where
  "bit_length n = (if n = 0 then 0 else Suc (bit_length (n div 2)))"

declare bit_length.simps [simp del]

definition pow2 :: "int \<Rightarrow> real" where
  "pow2 k = (if 0 \<le> k then 2 ^ nat k else 1 / 2 ^ nat (- k))"

definition exponent :: "real \<Rightarrow> int" where
  "exponent x =
     (if 1 \<le> \<bar>x\<bar> then int (bit_length (nat \<lfloor>\<bar>x\<bar>\<rfloor>)) - 1
      else - int (bit_length (nat (\<lceil>1 / \<bar>x\<bar>\<rceil> - 1))))"

definition round_half_even :: "real \<Rightarrow> int" where
  "round_half_even x =
     (let f = \<lfloor>x\<rfloor>; d = x - of_int f
      in if d < 1 / 2 then f else if 1 / 2 < d then f + 1 else if even f then f else f + 1)"

definition round_binary64 :: "real \<Rightarrow> real" where
  "round_binary64 x =
     (if x = 0 then 0
      else let ulp = pow2 (max (exponent x) (- 1022) - 52)
           in of_int (round_half_even (x / ulp)) * ulp)"

definition float_literal :: "real \<Rightarrow> real" where
  \<comment> \<open>the float a decimal literal or a parsed decimal denotes\<close>
  "float_literal x = round_binary64 x"

definition float_of_int :: "int \<Rightarrow> real" where
  \<comment> \<open>the conversion of an \<open>int\<close> operand in mixed arithmetic\<close>
  "float_of_int n = round_binary64 (of_int n)"

definition fadd :: "real \<Rightarrow> real \<Rightarrow> real" where
  "fadd a b = round_binary64 (a + b)"

definition fsub :: "real \<Rightarrow> real \<Rightarrow> real" where
  "fsub a b = round_binary64 (a - b)"

definition fmul :: "real \<Rightarrow> real \<Rightarrow> real" where
  "fmul a b = round_binary64 (a * b)"

definition fdiv :: "real \<Rightarrow> real \<Rightarrow> real" where
  \<comment> \<open>float division by a divisor that is not zero: the engine divides by \<open>100.0\<close> and by
      a cost it has checked to be positive\<close>
  "fdiv a b = round_binary64 (a / b)"

section \<open>Strings\<close>

definition startswith :: "string \<Rightarrow> string \<Rightarrow> bool" where
  "startswith s p = (take (length p) s = p)"

definition endswith :: "string \<Rightarrow> string \<Rightarrow> bool" where
  "endswith s p = (length p \<le> length s \<and> drop (length s - length p) s = p)"

fun contains :: "string \<Rightarrow> string \<Rightarrow> bool" where
  \<comment> \<open>Python's \<open>p in s\<close> on strings\<close>
  "contains [] p = (p = [])"
| "contains (c # cs) p = (startswith (c # cs) p \<or> contains cs p)"

definition lower_char :: "char \<Rightarrow> char" where
  "lower_char c =
     (let n = (of_char c :: nat) in if 65 \<le> n \<and> n \<le> 90 then char_of (n + 32) else c)"

definition ascii_lower :: "string \<Rightarrow> string" where
  \<comment> \<open>what \<open>str.lower()\<close> does to a text of ASCII characters: the letters A to Z are
      lowered, every other character is kept\<close>
  "ascii_lower s = map lower_char s"

definition star :: string where
  \<comment> \<open>the UTF-8 bytes of the star glyph U+2605 that prefixes knives and gloves\<close>
  "star = [char_of (226::nat), char_of (152::nat), char_of (133::nat)]"

section \<open>config.py\<close>

record Config =
  fx_cny_to_usd :: real
  buff_sell_fee_pct :: real
  csfloat_buy_fee_pct :: real
  csfloat_sell_fee_pct :: real
  min_price_usd :: real
  max_price_usd :: real
  min_roi_csfloat_to_buff :: real
  min_roi_buff_to_csfloat :: real
  min_csfloat_listings :: int
  min_watchers :: int
  allowed_item_types :: "string list"

section \<open>clients: the feed records\<close>

record BuffSaleDTO =
  sale_min_price :: real
  sale_tag_id :: "int option"
  sale_tag_name :: "string option"

record BuffItemDTO =
  dto_goods_id :: int
  dto_market_hash_name :: string
  dto_update_time :: "int option"
  dto_stat_time :: "int option"
  dto_sales :: "BuffSaleDTO list"

fun py_min :: "real \<Rightarrow> real list \<Rightarrow> real" where
  \<comment> \<open>the builtin \<open>min\<close>, started at the first element\<close>
  "py_min best [] = best"
| "py_min best (x # xs) = py_min (if x < best then x else best) xs"

definition overall_min_price :: "BuffItemDTO \<Rightarrow> real option" where
  "overall_min_price d =
     (case dto_sales d of
        [] \<Rightarrow> None
      | s # ss \<Rightarrow> Some (py_min (sale_min_price s) (map sale_min_price ss)))"

record CSFloatListingDTO =
  ldto_listing_id :: string
  ldto_market_hash_name :: string
  ldto_price_cents :: int
  ldto_discount :: "real option"
  ldto_listing_type :: string
  ldto_float_value :: "real option"
  ldto_paint_seed :: "int option"
  ldto_wear_name :: "string option"
  ldto_stickers :: "(string \<times> int \<times> real option) list"
  ldto_created_at :: "string option"
  ldto_reference_quantity :: "int option"
  ldto_watchers :: "int option"

section \<open>db/models.py: the stored entities\<close>

record BuffItem =
  item_id :: int
  item_goods_id :: int
  item_market_hash_name :: string
  weapon :: "string option"
  skin_name :: "string option"
  wear :: "string option"
  first_seen_at :: time
  last_seen_at :: time

text \<open>
  An object built by a constructor call holds the arguments of the call; the columns the
  database fills in on insert (primary key, server-side timestamp, column defaults) exist
  once the object is flushed.  So each inserted entity has a record of constructor
  arguments and an extension of it with the remaining columns.  The JSON text of the
  per-tag floors is kept as the dictionary it encodes.
\<close>

record BuffPriceSnapshot_args =
  snap_goods_id :: int
  snap_overall_min_price :: real
  tag_floors_json :: "(string \<times> real) list option"
  snap_stat_time :: "int option"
  within_target_range :: bool

record BuffPriceSnapshot = BuffPriceSnapshot_args +
  snap_id :: int
  snap_timestamp :: time

record CSFloatListing =
  lst_id :: int
  csfloat_id :: string
  lst_market_hash_name :: string
  price_cents :: int
  discount :: "real option"
  listing_type :: string
  float_value :: "real option"
  paint_seed :: "int option"
  wear_name :: "string option"
  stickers_json :: "string option"
  reference_quantity :: "int option"
  watchers :: "int option"
  seen_at :: time
  last_checked_at :: time
  lst_is_active :: bool

record ArbitrageSignal_args =
  direction :: string
  sig_market_hash_name :: string
  buff_goods_id :: "int option"
  csfloat_listing_id :: "int option"
  buff_floor_cny :: "real option"
  buff_floor_usd :: "real option"
  csfloat_price_usd :: "real option"
  roi_pct :: real

record ArbitrageSignal = ArbitrageSignal_args +
  sig_id :: int
  created_at :: time
  sig_note :: "string option"
  is_active :: bool
  acted_on :: bool

section \<open>db/session.py: the session\<close>

text \<open>
  The session factory is built with \<open>autoflush=False\<close>: an object passed to
  \<open>session.add\<close> stays pending, invisible to every query, until \<open>session.commit()\<close>
  inserts it.  The session is therefore the tables plus the pending objects in the order
  they were added.  Attribute changes on a loaded row are written to the row at once:
  the queries below filter on columns those changes leave alone.
\<close>

record session =
  buff_items :: "BuffItem list"
  buff_price_snapshots :: "BuffPriceSnapshot list"
  arbitrage_signals :: "ArbitrageSignal list"
  new_snapshots :: "BuffPriceSnapshot_args list"
  new_signals :: "ArbitrageSignal_args list"

definition next_id :: "int list \<Rightarrow> int" where
  \<comment> \<open>the integer primary key the table assigns: one more than the largest in use\<close>
  "next_id ids = fold max ids 0 + 1"

definition insert_snapshot :: "time \<Rightarrow> int \<Rightarrow> BuffPriceSnapshot_args \<Rightarrow> BuffPriceSnapshot" where
  "insert_snapshot now i a =
     \<lparr>snap_goods_id = snap_goods_id a, snap_overall_min_price = snap_overall_min_price a,
      tag_floors_json = tag_floors_json a, snap_stat_time = snap_stat_time a,
      within_target_range = within_target_range a,
      snap_id = i, snap_timestamp = now\<rparr>"

definition insert_signal :: "time \<Rightarrow> int \<Rightarrow> ArbitrageSignal_args \<Rightarrow> ArbitrageSignal" where
  \<comment> \<open>\<open>created_at\<close> is the server default \<open>now()\<close>, \<open>is_active\<close> defaults to True,
      \<open>acted_on\<close> to False\<close>
  "insert_signal now i a =
     \<lparr>direction = direction a, sig_market_hash_name = sig_market_hash_name a,
      buff_goods_id = buff_goods_id a, csfloat_listing_id = csfloat_listing_id a,
      buff_floor_cny = buff_floor_cny a, buff_floor_usd = buff_floor_usd a,
      csfloat_price_usd = csfloat_price_usd a, roi_pct = roi_pct a,
      sig_id = i, created_at = now, sig_note = None, is_active = True, acted_on = False\<rparr>"

fun flush_snapshots :: "time \<Rightarrow> BuffPriceSnapshot list \<Rightarrow> BuffPriceSnapshot_args list
    \<Rightarrow> BuffPriceSnapshot list" where
  "flush_snapshots now rows [] = rows"
| "flush_snapshots now rows (a # as) =
     flush_snapshots now (rows @ [insert_snapshot now (next_id (map snap_id rows)) a]) as"

fun flush_signals :: "time \<Rightarrow> ArbitrageSignal list \<Rightarrow> ArbitrageSignal_args list
    \<Rightarrow> ArbitrageSignal list" where
  "flush_signals now rows [] = rows"
| "flush_signals now rows (a # as) =
     flush_signals now (rows @ [insert_signal now (next_id (map sig_id rows)) a]) as"

definition commit :: "time \<Rightarrow> session \<Rightarrow> session" where
  "commit now s =
     s\<lparr>buff_price_snapshots := flush_snapshots now (buff_price_snapshots s) (new_snapshots s),
       arbitrage_signals := flush_signals now (arbitrage_signals s) (new_signals s),
       new_snapshots := [], new_signals := []\<rparr>"

fun first_index :: "('a \<Rightarrow> bool) \<Rightarrow> 'a list \<Rightarrow> nat option" where
  \<comment> \<open>the position of the row \<open>.first()\<close> returns\<close>
  "first_index P [] = None"
| "first_index P (x # xs) = (if P x then Some 0 else map_option Suc (first_index P xs))"

fun order_by_timestamp_desc_first :: "BuffPriceSnapshot list \<Rightarrow> BuffPriceSnapshot option" where
  \<comment> \<open>\<open>order_by(timestamp.desc()).first()\<close>: a row of the largest timestamp, the earliest
      such row where several share it\<close>
  "order_by_timestamp_desc_first [] = None"
| "order_by_timestamp_desc_first (x # xs) =
     (case order_by_timestamp_desc_first xs of
        None \<Rightarrow> Some x
      | Some y \<Rightarrow> if snap_timestamp x < snap_timestamp y then Some y else Some x)"

definition latest_snapshot :: "session \<Rightarrow> int \<Rightarrow> BuffPriceSnapshot option" where
  "latest_snapshot s gid =
     order_by_timestamp_desc_first (filter (\<lambda>p. snap_goods_id p = gid) (buff_price_snapshots s))"

definition buff_item_by_name :: "session \<Rightarrow> string \<Rightarrow> BuffItem option" where
  "buff_item_by_name s name = find (\<lambda>b. item_market_hash_name b = name) (buff_items s)"

section \<open>ingestion/buff_prices.py\<close>

definition is_within_price_range :: "real \<Rightarrow> Config \<Rightarrow> bool" where
  "is_within_price_range price_cny config =
     (let price_usd = fmul price_cny (fx_cny_to_usd config)
      in min_price_usd config \<le> price_usd \<and> price_usd \<le> max_price_usd config)"

definition is_allowed_item_type :: "(string \<Rightarrow> string) \<Rightarrow> string \<Rightarrow> Config \<Rightarrow> bool" where
  \<comment> \<open>\<open>lower\<close> is \<open>str.lower\<close>\<close>
  "is_allowed_item_type lower market_hash_name config =
     (if allowed_item_types config = [] then True
      else
        let name_lower = lower market_hash_name in
        if startswith name_lower ''sticker |'' then
          ''sticker'' \<in> set (allowed_item_types config)
        else if contains name_lower ''graffiti |'' \<or> startswith name_lower ''sealed graffiti'' then
          ''graffiti'' \<in> set (allowed_item_types config)
        else if startswith name_lower ''patch |'' then
          ''patch'' \<in> set (allowed_item_types config)
        else if list_ex (\<lambda>agent. contains name_lower agent) [''agent |'', ''operator |''] then
          ''agent'' \<in> set (allowed_item_types config)
        else if startswith name_lower ''music kit |'' then
          ''music_kit'' \<in> set (allowed_item_types config)
        else if endswith name_lower '' case'' \<or> endswith name_lower '' key'' then
          ''case'' \<in> set (allowed_item_types config) \<or> ''key'' \<in> set (allowed_item_types config)
        else if list_ex (\<lambda>skip. contains name_lower skip)
                  [''capsule'', ''package'', ''pass'', ''pin''] then
          False
        else if startswith name_lower star then
          (if contains name_lower ''gloves'' \<or> contains name_lower ''hand wraps''
              \<or> contains name_lower ''driver gloves'' \<or> contains name_lower ''specialist gloves''
              \<or> contains name_lower ''sport gloves'' \<or> contains name_lower ''moto gloves''
              \<or> contains name_lower ''hydra gloves'' \<or> contains name_lower ''broken fang gloves''
           then ''gloves'' \<in> set (allowed_item_types config)
           else ''knife'' \<in> set (allowed_item_types config))
        else if contains market_hash_name '' | '' \<and> contains market_hash_name ''('' then
          ''weapon'' \<in> set (allowed_item_types config)
        else True)"

fun dict_set :: "'k \<Rightarrow> 'v \<Rightarrow> ('k \<times> 'v) list \<Rightarrow> ('k \<times> 'v) list" where
  \<comment> \<open>\<open>d[k] = v\<close> on a dictionary kept in insertion order\<close>
  "dict_set k v [] = [(k, v)]"
| "dict_set k v ((k', v') # kvs) =
     (if k' = k then (k, v) # kvs else (k', v') # dict_set k v kvs)"

fun tag_floors_loop :: "BuffSaleDTO list \<Rightarrow> (string \<times> real) list \<Rightarrow> (string \<times> real) list" where
  "tag_floors_loop [] tag_floors = tag_floors"
| "tag_floors_loop (sale # sales) tag_floors =
     tag_floors_loop sales
       (case sale_tag_name sale of
          None \<Rightarrow> tag_floors
        | Some tag_name \<Rightarrow>
            if tag_name = [] then tag_floors
            else dict_set tag_name (sale_min_price sale) tag_floors)"

definition create_price_snapshot ::
    "session \<Rightarrow> BuffItemDTO \<Rightarrow> Config \<Rightarrow> BuffPriceSnapshot_args option \<times> session" where
  "create_price_snapshot s item_dto config =
     (case overall_min_price item_dto of
        None \<Rightarrow> (None, s)
      | Some overall_min \<Rightarrow>
          if overall_min \<le> 0 then (None, s)
          else
            let tag_floors = tag_floors_loop (dto_sales item_dto) [];
                snapshot = \<lparr>snap_goods_id = dto_goods_id item_dto,
                            snap_overall_min_price = overall_min,
                            tag_floors_json = (if tag_floors = [] then None else Some tag_floors),
                            snap_stat_time = dto_stat_time item_dto,
                            within_target_range = is_within_price_range overall_min config\<rparr>
            in (Some snapshot, s\<lparr>new_snapshots := new_snapshots s @ [snapshot]\<rparr>))"

section \<open>core/arbitrage_engine.py\<close>

datatype signal_obj = Persistent ArbitrageSignal | Pending ArbitrageSignal_args

definition compute_signal_for_listing ::
    "time \<Rightarrow> session \<Rightarrow> CSFloatListing \<Rightarrow> Config \<Rightarrow> signal_obj option \<times> session" where
  "compute_signal_for_listing utcnow s listing config =
     (case buff_item_by_name s (lst_market_hash_name listing) of
        None \<Rightarrow> (None, s)
      | Some buff_item \<Rightarrow>
     (case latest_snapshot s (item_goods_id buff_item) of
        None \<Rightarrow> (None, s)
      | Some buff_snapshot \<Rightarrow>
          if snap_timestamp buff_snapshot < utcnow - timedelta_hours 24 then (None, s)
          else
            let csfloat_price = fdiv (float_of_int (price_cents listing)) 100;
                floor_cny = snap_overall_min_price buff_snapshot;
                floor_usd = fmul floor_cny (fx_cny_to_usd config);
                net_buy_cost = fmul csfloat_price (fadd 1 (csfloat_buy_fee_pct config));
                net_sell_proceeds = fmul floor_usd (fsub 1 (buff_sell_fee_pct config))
            in
            if net_buy_cost \<le> 0 then (None, s)
            else
              let roi = fdiv (fsub net_sell_proceeds net_buy_cost) net_buy_cost in
              if roi < min_roi_csfloat_to_buff config then (None, s)
              else
                (case first_index
                        (\<lambda>g. csfloat_listing_id g = Some (lst_id listing)
                              \<and> direction g = ''CSFLOAT_TO_BUFF'' \<and> is_active g)
                        (arbitrage_signals s) of
                   Some i \<Rightarrow>
                     let existing = (arbitrage_signals s ! i)
                           \<lparr>buff_floor_cny := Some floor_cny, buff_floor_usd := Some floor_usd,
                            csfloat_price_usd := Some csfloat_price, roi_pct := roi\<rparr>
                     in (Some (Persistent existing),
                         s\<lparr>arbitrage_signals := (arbitrage_signals s)[i := existing]\<rparr>)
                 | None \<Rightarrow>
                     let signal = \<lparr>direction = ''CSFLOAT_TO_BUFF'',
                                   sig_market_hash_name = lst_market_hash_name listing,
                                   buff_goods_id = Some (item_goods_id buff_item),
                                   csfloat_listing_id = Some (lst_id listing),
                                   buff_floor_cny = Some floor_cny,
                                   buff_floor_usd = Some floor_usd,
                                   csfloat_price_usd = Some csfloat_price,
                                   roi_pct = roi\<rparr>
                     in (Some (Pending signal), s\<lparr>new_signals := new_signals s @ [signal]\<rparr>))))"

fun csfloat_to_buff_loop ::
    "(nat \<Rightarrow> time) \<Rightarrow> nat \<Rightarrow> Config \<Rightarrow> CSFloatListing list \<Rightarrow> signal_obj list \<times> session
     \<Rightarrow> signal_obj list \<times> session" where
  \<comment> \<open>the \<open>for listing in listings\<close> loop; \<open>clock k\<close> is the time at the k-th iteration\<close>
  "csfloat_to_buff_loop clock k config [] (signals_created, s) = (signals_created, s)"
| "csfloat_to_buff_loop clock k config (listing # listings) (signals_created, s) =
     (if (case reference_quantity listing of
            None \<Rightarrow> False | Some q \<Rightarrow> q < min_csfloat_listings config) then
        csfloat_to_buff_loop clock (Suc k) config listings (signals_created, s)
      else if (case watchers listing of
            None \<Rightarrow> False | Some w \<Rightarrow> w < min_watchers config) then
        csfloat_to_buff_loop clock (Suc k) config listings (signals_created, s)
      else
        (case compute_signal_for_listing (clock k) s listing config of
           (None, s') \<Rightarrow>
             csfloat_to_buff_loop clock (Suc k) config listings (signals_created, s')
         | (Some signal, s') \<Rightarrow>
             csfloat_to_buff_loop clock (Suc k) config listings (signals_created @ [signal], s')))"

definition compute_csfloat_to_buff_signals ::
    "(nat \<Rightarrow> time) \<Rightarrow> session \<Rightarrow> Config \<Rightarrow> CSFloatListing list \<Rightarrow> signal_obj list \<times> session" where
  \<comment> \<open>the pass over a supplied list of listings, committed at the end\<close>
  "compute_csfloat_to_buff_signals clock s config listings =
     (case csfloat_to_buff_loop clock 0 config listings ([], s) of
        (signals_created, s') \<Rightarrow> (signals_created, commit (clock (length listings)) s'))"

definition compute_buff_to_csfloat_signal ::
    "session \<Rightarrow> string \<Rightarrow> Config \<Rightarrow> (string \<Rightarrow> CSFloatListingDTO option)
     \<Rightarrow> signal_obj option \<times> session" where
  \<comment> \<open>\<open>fetch_lowest_price_listing\<close> is the feed client's live lookup\<close>
  "compute_buff_to_csfloat_signal s market_hash_name config fetch_lowest_price_listing =
     (case buff_item_by_name s market_hash_name of
        None \<Rightarrow> (None, s)
      | Some buff_item \<Rightarrow>
     (case latest_snapshot s (item_goods_id buff_item) of
        None \<Rightarrow> (None, s)
      | Some buff_snapshot \<Rightarrow>
     (case fetch_lowest_price_listing market_hash_name of
        None \<Rightarrow> (None, s)
      | Some csfloat_listing \<Rightarrow>
          let floor_cny = snap_overall_min_price buff_snapshot;
              floor_usd = fmul floor_cny (fx_cny_to_usd config);
              csfloat_floor_usd = fdiv (float_of_int (ldto_price_cents csfloat_listing)) 100;
              net_buy_cost = fmul floor_usd (fadd 1 (buff_sell_fee_pct config));
              net_sell_proceeds = fmul csfloat_floor_usd (fsub 1 (csfloat_sell_fee_pct config))
          in
          if net_buy_cost \<le> 0 then (None, s)
          else
            let roi = fdiv (fsub net_sell_proceeds net_buy_cost) net_buy_cost in
            if roi < min_roi_buff_to_csfloat config then (None, s)
            else
              (case first_index
                      (\<lambda>g. sig_market_hash_name g = market_hash_name
                            \<and> direction g = ''BUFF_TO_CSFLOAT'' \<and> is_active g)
                      (arbitrage_signals s) of
                 Some i \<Rightarrow>
                   let existing = (arbitrage_signals s ! i)
                         \<lparr>buff_floor_cny := Some floor_cny, buff_floor_usd := Some floor_usd,
                          csfloat_price_usd := Some csfloat_floor_usd, roi_pct := roi\<rparr>
                   in (Some (Persistent existing),
                       s\<lparr>arbitrage_signals := (arbitrage_signals s)[i := existing]\<rparr>)
               | None \<Rightarrow>
                   let signal = \<lparr>direction = ''BUFF_TO_CSFLOAT'',
                                 sig_market_hash_name = market_hash_name,
                                 buff_goods_id = Some (item_goods_id buff_item),
                                 csfloat_listing_id = None,
                                 buff_floor_cny = Some floor_cny,
                                 buff_floor_usd = Some floor_usd,
                                 csfloat_price_usd = Some csfloat_floor_usd,
                                 roi_pct = roi\<rparr>
                   in (Some (Pending signal), s\<lparr>new_signals := new_signals s @ [signal]\<rparr>)))))"

definition is_stale :: "time \<Rightarrow> ArbitrageSignal \<Rightarrow> bool" where
  \<comment> \<open>the filter of the sweep's query\<close>
  "is_stale cutoff g = (is_active g \<and> created_at g < cutoff)"

definition deactivate_stale_signals :: "time \<Rightarrow> time \<Rightarrow> session \<Rightarrow> int \<Rightarrow> nat \<times> session" where
  \<comment> \<open>\<open>utcnow\<close> is the clock reading of the cutoff, \<open>commit_time\<close> that of the commit\<close>
  "deactivate_stale_signals utcnow commit_time s max_age_hours =
     (let cutoff = utcnow - timedelta_hours max_age_hours;
          stale_signals = filter (is_stale cutoff) (arbitrage_signals s);
          s' = s\<lparr>arbitrage_signals :=
                   map (\<lambda>g. if is_stale cutoff g then g\<lparr>is_active := False\<rparr> else g)
                     (arbitrage_signals s)\<rparr>
      in (length stale_signals, commit commit_time s'))"

definition get_top_signals ::
    "session \<Rightarrow> string option \<Rightarrow> real option \<Rightarrow> nat \<Rightarrow> bool \<Rightarrow> ArbitrageSignal list" where
  \<comment> \<open>\<open>limit\<close> is a row count; ties in ROI come out in row order\<close>
  "get_top_signals s dir min_roi limit active_only =
     (let query = arbitrage_signals s;
          query = (if active_only then filter is_active query else query);
          query = (case dir of
                     None \<Rightarrow> query
                   | Some d \<Rightarrow> if d = [] then query else filter (\<lambda>g. direction g = d) query);
          query = (case min_roi of
                     None \<Rightarrow> query
                   | Some r \<Rightarrow> filter (\<lambda>g. r \<le> roi_pct g) query)
      in take limit (sort_key (\<lambda>g. - roi_pct g) query))"

fun obj_roi_pct :: "signal_obj \<Rightarrow> real" where
  \<comment> \<open>reading a column of a returned signal, loaded or pending\<close>
  "obj_roi_pct (Persistent g) = roi_pct g"
| "obj_roi_pct (Pending a) = roi_pct a"

fun obj_buff_floor_cny :: "signal_obj \<Rightarrow> real option" where
  "obj_buff_floor_cny (Persistent g) = buff_floor_cny g"
| "obj_buff_floor_cny (Pending a) = buff_floor_cny a"

fun obj_buff_floor_usd :: "signal_obj \<Rightarrow> real option" where
  "obj_buff_floor_usd (Persistent g) = buff_floor_usd g"
| "obj_buff_floor_usd (Pending a) = buff_floor_usd a"

fun obj_csfloat_price_usd :: "signal_obj \<Rightarrow> real option" where
  "obj_csfloat_price_usd (Persistent g) = csfloat_price_usd g"
| "obj_csfloat_price_usd (Pending a) = csfloat_price_usd a"

section \<open>The identity invariant of direction A\<close>

text \<open>
  The identity key of a stored signal under direction A is its listing id, for an active
  direction-A row; a pending signal is inserted active, so its key is its listing id.
  The invariant: the keys of the stored signals are pairwise distinct.
\<close>

definition signal_key :: "ArbitrageSignal \<Rightarrow> int option" where
  "signal_key g =
     (if is_active g \<and> direction g = ''CSFLOAT_TO_BUFF'' then csfloat_listing_id g else None)"

definition pending_key :: "ArbitrageSignal_args \<Rightarrow> int option" where
  "pending_key a = (if direction a = ''CSFLOAT_TO_BUFF'' then csfloat_listing_id a else None)"

definition one_active_signal_per_listing :: "ArbitrageSignal list \<Rightarrow> bool" where
  "one_active_signal_per_listing rows = distinct (List.map_filter signal_key rows)"

section \<open>Example data\<close>

definition default_config :: Config where
  \<comment> \<open>the field defaults of \<open>Config\<close>\<close>
  "default_config =
     \<lparr>fx_cny_to_usd = float_literal (14 / 100), buff_sell_fee_pct = float_literal (25 / 1000),
      csfloat_buy_fee_pct = 0, csfloat_sell_fee_pct = float_literal (2 / 100),
      min_price_usd = 100, max_price_usd = 1500,
      min_roi_csfloat_to_buff = float_literal (8 / 100),
      min_roi_buff_to_csfloat = float_literal (10 / 100),
      min_csfloat_listings = 5, min_watchers = 0,
      allowed_item_types = [''weapon'', ''knife'', ''gloves'']\<rparr>"

definition example_config :: Config where
  "example_config = default_config\<lparr>fx_cny_to_usd := float_literal (13 / 100)\<rparr>"

definition empty_session :: session where
  "empty_session =
     \<lparr>buff_items = [], buff_price_snapshots = [], arbitrage_signals = [],
      new_snapshots = [], new_signals = []\<rparr>"

definition mixed_price_item :: BuffItemDTO where
  "mixed_price_item =
     \<lparr>dto_goods_id = 33912, dto_market_hash_name = ''AK-47 | Redline (Field-Tested)'',
      dto_update_time = None, dto_stat_time = None,
      dto_sales = [\<lparr>sale_min_price = 5, sale_tag_id = Some 1, sale_tag_name = Some ''normal''\<rparr>,
                   \<lparr>sale_min_price = 0, sale_tag_id = Some 2, sale_tag_name = Some ''souvenir''\<rparr>]\<rparr>"

definition priced_item :: BuffItemDTO where
  "priced_item =
     \<lparr>dto_goods_id = 33912, dto_market_hash_name = ''AK-47 | Redline (Field-Tested)'',
      dto_update_time = None, dto_stat_time = None,
      dto_sales = [\<lparr>sale_min_price = 5, sale_tag_id = Some 1, sale_tag_name = Some ''normal''\<rparr>,
                   \<lparr>sale_min_price = 3, sale_tag_id = Some 2, sale_tag_name = Some ''souvenir''\<rparr>]\<rparr>"

definition capsule_name :: string where
  "capsule_name = ''Stockholm 2021 Legends Sticker Capsule''"

definition redline_item :: BuffItem where
  "redline_item =
     \<lparr>item_id = 1, item_goods_id = 33912, item_market_hash_name = ''AK-47 | Redline (Field-Tested)'',
      weapon = Some ''AK-47'', skin_name = Some ''Redline'', wear = Some ''Field-Tested'',
      first_seen_at = 0, last_seen_at = 0\<rparr>"

definition redline_snapshot :: BuffPriceSnapshot where
  "redline_snapshot =
     \<lparr>snap_goods_id = 33912, snap_overall_min_price = 1000, tag_floors_json = None,
      snap_stat_time = None, within_target_range = True, snap_id = 1, snap_timestamp = 0\<rparr>"

definition redline_listing :: CSFloatListing where
  "redline_listing =
     \<lparr>lst_id = 7, csfloat_id = ''8123'', lst_market_hash_name = ''AK-47 | Redline (Field-Tested)'',
      price_cents = 10000, discount = None, listing_type = ''buy_now'', float_value = None,
      paint_seed = None, wear_name = None, stickers_json = None, reference_quantity = Some 12,
      watchers = None, seen_at = 0, last_checked_at = 0, lst_is_active = True\<rparr>"

definition redline_session :: session where
  "redline_session =
     \<lparr>buff_items = [redline_item], buff_price_snapshots = [redline_snapshot],
      arbitrage_signals = [], new_snapshots = [], new_signals = []\<rparr>"

definition redline_offer :: CSFloatListingDTO where
  "redline_offer =
     \<lparr>ldto_listing_id = ''9001'', ldto_market_hash_name = ''AK-47 | Redline (Field-Tested)'',
      ldto_price_cents = 20000, ldto_discount = None, ldto_listing_type = ''buy_now'',
      ldto_float_value = None, ldto_paint_seed = None, ldto_wear_name = None, ldto_stickers = [],
      ldto_created_at = None, ldto_reference_quantity = None, ldto_watchers = None\<rparr>"

definition redline_feed :: "string \<Rightarrow> CSFloatListingDTO option" where
  "redline_feed name =
     (if name = ''AK-47 | Redline (Field-Tested)'' then Some redline_offer else None)"

definition example_trade :: Trade where
  "example_trade =
     \<lparr>trade_id = 1, trade_signal_id = None,
      trade_market_hash_name = ''AK-47 | Redline (Field-Tested)'',
      trade_direction = ''CSFLOAT_TO_BUFF'', buy_market = ''csfloat'', sell_market = Some ''buff'',
      buy_price_usd = 100, sell_price_usd = Some 120, buy_time = 0,
      sell_time = Some 259200000000, trade_note = None\<rparr>"

definition old_signal :: ArbitrageSignal where
  "old_signal =
     \<lparr>direction = ''CSFLOAT_TO_BUFF'', sig_market_hash_name = ''AK-47 | Redline (Field-Tested)'',
      buff_goods_id = Some 33912, csfloat_listing_id = Some 7, buff_floor_cny = Some 900,
      buff_floor_usd = Some 117, csfloat_price_usd = Some 100, roi_pct = 14 / 100,
      sig_id = 1, created_at = 0, sig_note = Some ''watch'', is_active = True, acted_on = True\<rparr>"

definition fresh_signal :: ArbitrageSignal where
  "fresh_signal =
     \<lparr>direction = ''BUFF_TO_CSFLOAT'', sig_market_hash_name = ''AWP | Asiimov (Field-Tested)'',
      buff_goods_id = Some 34000, csfloat_listing_id = None, buff_floor_cny = Some 700,
      buff_floor_usd = Some 91, csfloat_price_usd = Some 130, roi_pct = 36 / 100,
      sig_id = 2, created_at = timedelta_hours 20, sig_note = None, is_active = True,
      acted_on = False\<rparr>"

definition closed_signal :: ArbitrageSignal where
  "closed_signal =
     \<lparr>direction = ''CSFLOAT_TO_BUFF'', sig_market_hash_name = ''M4A4 | Howl (Minimal Wear)'',
      buff_goods_id = Some 35000, csfloat_listing_id = Some 3, buff_floor_cny = Some 800,
      buff_floor_usd = Some 104, csfloat_price_usd = Some 80, roi_pct = 27 / 100,
      sig_id = 3, created_at = 0, sig_note = None, is_active = False, acted_on = False\<rparr>"

definition signal_session :: session where
  "signal_session =
     \<lparr>buff_items = [redline_item], buff_price_snapshots = [redline_snapshot],
      arbitrage_signals = [old_signal, fresh_signal, closed_signal],
      new_snapshots = [], new_signals = []\<rparr>"

definition signal_session_updated_signal :: ArbitrageSignal where
  "signal_session_updated_signal =
     old_signal\<lparr>buff_floor_cny := Some 1000, buff_floor_usd := Some 130,
       csfloat_price_usd := Some 100, roi_pct := float_literal (2675 / 10000)\<rparr>"

definition steady_clock :: "nat \<Rightarrow> time" where
  "steady_clock k = timedelta_hours 1"

section \<open>Properties of the rounding\<close>

text \<open>
  The exponent brackets the magnitude, and the rounded value is a nearest multiple of
  the spacing, the even one at a tie.
\<close>

lemma bit_length_bounds:
  "0 < n \<Longrightarrow> 2 ^ (bit_length n - 1) \<le> n \<and> n < 2 ^ bit_length n"
proof (induction n rule: bit_length.induct)
  case (1 n)
  show ?case
  proof (cases "n div 2 = 0")
    case True
    with "1.prems" have "n = 1" by auto
    then show ?thesis by (simp add: bit_length.simps)
  next
    case False
    then have pos: "0 < n div 2" by simp
    let ?b = "bit_length (n div 2)"
    from "1.IH"[OF _ pos] "1.prems" have IH: "2 ^ (?b - 1) \<le> n div 2" "n div 2 < 2 ^ ?b" by auto
    have b: "0 < ?b" using pos by (subst bit_length.simps) simp
    have eq: "bit_length n = Suc ?b" using "1.prems" by (subst bit_length.simps) simp
    have "2 * 2 ^ (?b - 1) = (2::nat) ^ ?b" using b by (cases ?b) auto
    with IH(1) have lo: "2 ^ ?b \<le> n" by linarith
    from IH(2) have "n < 2 * 2 ^ ?b" by linarith
    with lo show ?thesis by (simp add: eq)
  qed
qed

lemma exponent_bounds:
  assumes "x \<noteq> 0"
  shows "pow2 (exponent x) \<le> \<bar>x\<bar> \<and> \<bar>x\<bar> < pow2 (exponent x + 1)"
proof (cases "1 \<le> \<bar>x\<bar>")
  case True
  let ?n = "nat \<lfloor>\<bar>x\<bar>\<rfloor>"
  have n: "0 < ?n" using True by simp
  from bit_length_bounds[OF n] have lo: "2 ^ (bit_length ?n - 1) \<le> ?n" and hi: "?n < 2 ^ bit_length ?n"
    by auto
  have b: "0 < bit_length ?n" using n by (subst bit_length.simps) simp
  have e: "exponent x = int (bit_length ?n) - 1" using True by (simp add: exponent_def)
  have "real ?n \<le> \<bar>x\<bar>" using True by (simp add: of_nat_nat)
  moreover have "(2::real) ^ (bit_length ?n - 1) \<le> real ?n"
    using lo by (metis of_nat_le_iff of_nat_numeral of_nat_power)
  ultimately have L: "2 ^ (bit_length ?n - 1) \<le> \<bar>x\<bar>" by linarith
  have "\<bar>x\<bar> < real ?n + 1" using True by (simp add: of_nat_nat)
  moreover have "real ?n + 1 \<le> 2 ^ bit_length ?n"
    using hi by (metis Suc_leI of_nat_Suc of_nat_le_iff of_nat_numeral of_nat_power add.commute)
  ultimately have H: "\<bar>x\<bar> < 2 ^ bit_length ?n" by linarith
  have "nat (int (bit_length ?n) - 1) = bit_length ?n - 1" by simp
  with L H b show ?thesis by (simp add: e pow2_def)
next
  case False
  then have x1: "\<bar>x\<bar> < 1" and x0: "0 < \<bar>x\<bar>" using assms by auto
  let ?y = "1 / \<bar>x\<bar>"
  let ?m = "nat (\<lceil>?y\<rceil> - 1)"
  have y1: "1 < ?y" using x1 x0 by simp
  then have c: "2 \<le> \<lceil>?y\<rceil>" by linarith
  then have m: "0 < ?m" by simp
  have mlt: "real ?m < ?y" using c by (simp add: of_nat_nat) linarith
  have yle: "?y \<le> real ?m + 1" using c by (simp add: of_nat_nat) linarith
  from bit_length_bounds[OF m] have lo: "2 ^ (bit_length ?m - 1) \<le> ?m" and hi: "?m < 2 ^ bit_length ?m"
    by auto
  have b: "0 < bit_length ?m" using m by (subst bit_length.simps) simp
  have e: "exponent x = - int (bit_length ?m)" using False by (simp add: exponent_def)
  have "(2::real) ^ (bit_length ?m - 1) \<le> real ?m"
    using lo by (metis of_nat_le_iff of_nat_numeral of_nat_power)
  with mlt have A: "2 ^ (bit_length ?m - 1) < ?y" by linarith
  have "real ?m + 1 \<le> 2 ^ bit_length ?m"
    using hi by (metis Suc_leI of_nat_Suc of_nat_le_iff of_nat_numeral of_nat_power add.commute)
  with yle have B: "?y \<le> 2 ^ bit_length ?m" by linarith
  from B x0 have L: "1 / 2 ^ bit_length ?m \<le> \<bar>x\<bar>"
    by (simp add: field_simps)
  from A x0 have H: "\<bar>x\<bar> < 1 / 2 ^ (bit_length ?m - 1)"
    by (simp add: field_simps)
  have "- int (bit_length ?m) + 1 \<le> 0" using b by simp
  moreover have "nat (- (- int (bit_length ?m) + 1)) = bit_length ?m - 1" using b by simp
  ultimately have "pow2 (- int (bit_length ?m) + 1) = 1 / 2 ^ (bit_length ?m - 1)"
    using b by (cases "bit_length ?m = 1") (auto simp: pow2_def)
  with L H b show ?thesis by (simp add: e pow2_def)
qed

lemma pow2_pos: "0 < pow2 k"
  by (simp add: pow2_def)

lemma round_half_even_cases:
  "(y - of_int \<lfloor>y\<rfloor> < 1 / 2 \<and> round_half_even y = \<lfloor>y\<rfloor>)
   \<or> (1 / 2 < y - of_int \<lfloor>y\<rfloor> \<and> round_half_even y = \<lfloor>y\<rfloor> + 1)
   \<or> (y - of_int \<lfloor>y\<rfloor> = 1 / 2 \<and> even (round_half_even y)
        \<and> (round_half_even y = \<lfloor>y\<rfloor> \<or> round_half_even y = \<lfloor>y\<rfloor> + 1))"
  by (simp add: round_half_even_def Let_def)

lemma round_half_even_nearest: "\<bar>of_int (round_half_even y) - y\<bar> \<le> \<bar>of_int k - y\<bar>"
proof -
  define F :: real where "F = of_int \<lfloor>y\<rfloor>"
  define K :: real where "K = of_int k"
  define R :: real where "R = of_int (round_half_even y)"
  have f: "F \<le> y" "y < F + 1" unfolding F_def by linarith+
  have "k \<le> \<lfloor>y\<rfloor> \<or> \<lfloor>y\<rfloor> + 1 \<le> k" by linarith
  then have k: "K \<le> F \<or> F + 1 \<le> K"
    unfolding F_def K_def by (metis of_int_1 of_int_add of_int_le_iff)
  have r: "(y - F < 1 / 2 \<and> R = F) \<or> (1 / 2 < y - F \<and> R = F + 1)
      \<or> (y - F = 1 / 2 \<and> (R = F \<or> R = F + 1))"
    using round_half_even_cases[of y] unfolding F_def R_def by auto
  have "\<bar>R - y\<bar> \<le> \<bar>K - y\<bar>"
    using f k r by (auto simp: abs_if)
  then show ?thesis unfolding R_def K_def .
qed

lemma round_half_even_tie:
  assumes "\<bar>of_int (round_half_even y) - y\<bar> = 1 / 2"
  shows "even (round_half_even y)"
proof -
  define F :: real where "F = of_int \<lfloor>y\<rfloor>"
  define R :: real where "R = of_int (round_half_even y)"
  have f: "F \<le> y" "y < F + 1" unfolding F_def by linarith+
  have r: "(y - F < 1 / 2 \<and> R = F) \<or> (1 / 2 < y - F \<and> R = F + 1)
      \<or> (y - F = 1 / 2 \<and> even (round_half_even y))"
    using round_half_even_cases[of y] unfolding F_def R_def by auto
  have a: "\<bar>R - y\<bar> = 1 / 2" using assms unfolding R_def .
  from r show ?thesis
  proof (elim disjE conjE)
    assume "y - F < 1 / 2" "R = F"
    with f a show ?thesis by (simp add: abs_if split: if_splits)
  next
    assume "1 / 2 < y - F" "R = F + 1"
    with f a show ?thesis by (simp add: abs_if split: if_splits)
  next
    assume "even (round_half_even y)"
    then show ?thesis .
  qed
qed

lemma round_binary64_nearest:
  "\<bar>round_binary64 x - x\<bar> \<le> \<bar>of_int k * pow2 (max (exponent x) (- 1022) - 52) - x\<bar>"
proof (cases "x = 0")
  case True
  then show ?thesis by (simp add: round_binary64_def)
next
  case False
  let ?u = "pow2 (max (exponent x) (- 1022) - 52)"
  have u: "0 < ?u" by (rule pow2_pos)
  have "\<bar>of_int (round_half_even (x / ?u)) - x / ?u\<bar> \<le> \<bar>of_int k - x / ?u\<bar>"
    by (rule round_half_even_nearest)
  then have "\<bar>of_int (round_half_even (x / ?u)) - x / ?u\<bar> * ?u \<le> \<bar>of_int k - x / ?u\<bar> * ?u"
    using u by (simp add: mult_right_mono)
  moreover have "\<bar>a - x / ?u\<bar> * ?u = \<bar>a * ?u - x\<bar>" for a
  proof -
    have "\<bar>a - x / ?u\<bar> * ?u = \<bar>(a - x / ?u) * ?u\<bar>" using u by (simp add: abs_mult)
    also have "(a - x / ?u) * ?u = a * ?u - x" using u by (simp add: field_simps)
    finally show ?thesis .
  qed
  ultimately show ?thesis using False by (simp add: round_binary64_def Let_def)
qed

section \<open>Derived trade metrics\<close>

text \<open>
  Claim C8.  The three derived metrics of a trade are functions of its stored columns.
  ROI and profit are \<open>None\<close> exactly when the sell price is \<open>None\<close>, the hold duration is
  \<open>None\<close> exactly when the sell time is \<open>None\<close>.  With a sell price, profit is sell minus
  buy and ROI is profit over buy (the division raising on a zero buy price); a trade
  bought at 100 and sold at 120 has profit 20 and ROI 0.20.
\<close>

theorem trade_metrics_absent_iff_no_sale:
  "(trade_roi_pct t = Inr None \<longleftrightarrow> sell_price_usd t = None)
   \<and> (profit_usd t = None \<longleftrightarrow> sell_price_usd t = None)
   \<and> (hold_days t = None \<longleftrightarrow> sell_time t = None)
   \<and> (\<forall>sell. sell_price_usd t = Some sell \<longrightarrow>
         profit_usd t = Some (sell - buy_price_usd t)
         \<and> (buy_price_usd t \<noteq> 0 \<longrightarrow>
              trade_roi_pct t = Inr (Some ((sell - buy_price_usd t) / buy_price_usd t)))
         \<and> (buy_price_usd t = 0 \<longrightarrow> trade_roi_pct t = Inl ZeroDivisionError))
   \<and> (\<forall>st. sell_time t = Some st \<longrightarrow>
         hold_days t = Some ((st - buy_time t) div 86400000000))
   \<and> (buy_price_usd t = 100 \<and> sell_price_usd t = Some 120 \<longrightarrow>
         profit_usd t = Some 20 \<and> trade_roi_pct t = Inr (Some (20 / 100)))"
  by (cases "sell_price_usd t"; cases "sell_time t")
     (simp_all add: trade_roi_pct_def profit_usd_def hold_days_def py_truediv_def
        timedelta_days_def)

theorem trade_metrics_absent_iff_no_sale_witness:
  "profit_usd example_trade = Some 20
   \<and> trade_roi_pct example_trade = Inr (Some (1 / 5))
   \<and> hold_days example_trade = Some 3"
  using trade_metrics_absent_iff_no_sale [of example_trade]
  by (simp add: example_trade_def)

section \<open>Market-A floor and price snapshots\<close>

lemma py_min_fold: "py_min b xs = fold min xs b"
proof (induction xs arbitrary: b)
  case Nil
  show ?case by simp
next
  case (Cons x xs)
  have "(if x < b then x else b) = min x b" by (simp add: min_def)
  with Cons show ?case by simp
qed

lemma py_min_Min: "py_min b xs = Min (set (b # xs))"
  by (simp only: py_min_fold Min.set_eq_fold)

lemma overall_min_price_Min:
  "overall_min_price d =
     (if dto_sales d = [] then None else Some (Min (sale_min_price ` set (dto_sales d))))"
proof (cases "dto_sales d")
  case Nil
  then show ?thesis by (simp add: overall_min_price_def)
next
  case (Cons x xs)
  have "py_min (sale_min_price x) (map sale_min_price xs) = Min (sale_min_price ` set (x # xs))"
    by (simp only: py_min_Min list.set list.map image_insert set_map)
  with Cons show ?thesis by (simp add: overall_min_price_def)
qed

lemma create_price_snapshot_cases:
  "create_price_snapshot s d config =
     (if dto_sales d = [] \<or> (\<exists>x \<in> set (dto_sales d). sale_min_price x \<le> 0) then (None, s)
      else
        let tag_floors = tag_floors_loop (dto_sales d) [];
            snapshot = \<lparr>snap_goods_id = dto_goods_id d,
                        snap_overall_min_price = Min (sale_min_price ` set (dto_sales d)),
                        tag_floors_json = (if tag_floors = [] then None else Some tag_floors),
                        snap_stat_time = dto_stat_time d,
                        within_target_range =
                          is_within_price_range (Min (sale_min_price ` set (dto_sales d))) config\<rparr>
        in (Some snapshot, s\<lparr>new_snapshots := new_snapshots s @ [snapshot]\<rparr>))"
proof (cases "dto_sales d = []")
  case True
  then show ?thesis by (simp add: create_price_snapshot_def overall_min_price_Min)
next
  case False
  then have "(Min (sale_min_price ` set (dto_sales d)) \<le> 0)
      = (\<exists>x \<in> set (dto_sales d). sale_min_price x \<le> 0)"
    by (subst Min_le_iff) auto
  with False show ?thesis
    by (simp add: create_price_snapshot_def overall_min_price_Min Let_def)
qed

text \<open>
  Claim C1, as the code has it.  \<open>overall_min_price\<close> is the minimum over all per-tag
  minimums, positive or not, and \<open>create_price_snapshot\<close> drops the record when that
  minimum is not positive.  So a snapshot is produced exactly when the record has at least
  one per-tag minimum and every per-tag minimum is positive; its floor is then the minimum
  of the per-tag minimums, which is also the minimum of the positive ones.  A record
  without a snapshot leaves the session as it was.
\<close>

theorem create_price_snapshot_floor:
  "(fst (create_price_snapshot s d config) \<noteq> None
      \<longleftrightarrow> dto_sales d \<noteq> [] \<and> (\<forall>x \<in> set (dto_sales d). 0 < sale_min_price x))
   \<and> (\<forall>snapshot. fst (create_price_snapshot s d config) = Some snapshot \<longrightarrow>
         snap_overall_min_price snapshot = Min (sale_min_price ` set (dto_sales d))
         \<and> snap_overall_min_price snapshot = Min {p \<in> sale_min_price ` set (dto_sales d). 0 < p}
         \<and> snap_goods_id snapshot = dto_goods_id d
         \<and> snd (create_price_snapshot s d config)
             = s\<lparr>new_snapshots := new_snapshots s @ [snapshot]\<rparr>)
   \<and> (fst (create_price_snapshot s d config) = None \<longrightarrow>
         snd (create_price_snapshot s d config) = s)"
proof (cases "dto_sales d = [] \<or> (\<exists>x \<in> set (dto_sales d). sale_min_price x \<le> 0)")
  case True
  then have "create_price_snapshot s d config = (None, s)"
    by (simp only: create_price_snapshot_cases if_True)
  with True show ?thesis by (auto simp: not_less)
next
  case False
  then have "{p \<in> sale_min_price ` set (dto_sales d). 0 < p} = sale_min_price ` set (dto_sales d)"
    by (auto simp: not_le)
  with False show ?thesis
    by (auto simp: create_price_snapshot_cases Let_def not_le)
qed

theorem create_price_snapshot_floor_witness:
  "map sale_min_price (dto_sales priced_item) = [5, 3]
   \<and> map_option snap_overall_min_price
        (fst (create_price_snapshot empty_session priced_item default_config)) = Some 3"
  using create_price_snapshot_floor [of empty_session priced_item default_config]
  by (auto simp: priced_item_def)

text \<open>
  Claim C1 as stated fails: a record with the per-tag minimums 5 and 0 has a positive
  sale price, and no snapshot is produced for it.
\<close>

theorem mixed_prices_yield_no_snapshot:
  "map sale_min_price (dto_sales mixed_price_item) = [5, 0]
   \<and> fst (create_price_snapshot empty_session mixed_price_item default_config) = None"
  by (simp add: mixed_price_item_def create_price_snapshot_def overall_min_price_def)

section \<open>Classification filter\<close>

lemma ascii_lower_capsule_name:
  "ascii_lower capsule_name = ''stockholm 2021 legends sticker capsule''"
  unfolding capsule_name_def by code_simp

text \<open>
  Claim C2, as the code has it.  With the empty allowed-category list the filter allows
  every key.  For every non-empty allowed-category list, a key whose lower-cased text
  matches none of the rules 1 to 6 and contains one of "capsule", "package", "pass", "pin"
  is excluded.  Both hold whatever the case mapping \<open>lower\<close> is.
\<close>

theorem capsule_rule_excludes:
  "(allowed_item_types config = [] \<longrightarrow> is_allowed_item_type lower name config = True)
   \<and> (allowed_item_types config \<noteq> []
        \<and> \<not> startswith (lower name) ''sticker |''
        \<and> \<not> (contains (lower name) ''graffiti |'' \<or> startswith (lower name) ''sealed graffiti'')
        \<and> \<not> startswith (lower name) ''patch |''
        \<and> \<not> (contains (lower name) ''agent |'' \<or> contains (lower name) ''operator |'')
        \<and> \<not> startswith (lower name) ''music kit |''
        \<and> \<not> (endswith (lower name) '' case'' \<or> endswith (lower name) '' key'')
        \<and> (contains (lower name) ''capsule'' \<or> contains (lower name) ''package''
             \<or> contains (lower name) ''pass'' \<or> contains (lower name) ''pin'')
        \<longrightarrow> is_allowed_item_type lower name config = False)"
  by (simp add: is_allowed_item_type_def Let_def)

theorem capsule_rule_excludes_witness:
  "is_allowed_item_type ascii_lower capsule_name default_config = False
   \<and> is_allowed_item_type ascii_lower capsule_name (default_config\<lparr>allowed_item_types := []\<rparr>)
       = True"
  using capsule_rule_excludes [of default_config ascii_lower capsule_name]
    capsule_rule_excludes [of "default_config\<lparr>allowed_item_types := []\<rparr>" ascii_lower capsule_name]
  by (simp add: ascii_lower_capsule_name startswith_def endswith_def default_config_def)

text \<open>
  Claim C2 as stated fails at the empty allowed-category list: a capsule is let through.
\<close>

theorem capsule_allowed_without_filter:
  "allowed_item_types (default_config\<lparr>allowed_item_types := []\<rparr>) = []
   \<and> contains (ascii_lower capsule_name) ''capsule''
   \<and> is_allowed_item_type ascii_lower capsule_name (default_config\<lparr>allowed_item_types := []\<rparr>)
       = True"
  by (simp add: is_allowed_item_type_def ascii_lower_capsule_name startswith_def)

section \<open>Signal computation\<close>

lemmas binary64_eval = round_binary64_def exponent_def pow2_def round_half_even_def Let_def
  bit_length.simps float_literal_def float_of_int_def fadd_def fsub_def fmul_def fdiv_def

text \<open>
  The binary64 values of the literals and of the operations that the examples below run
  through, each obtained by evaluating \<open>round_binary64\<close>.
\<close>

lemma binary64_values:
  "float_literal (7 / 50) = 1261007895663739 / 9007199254740992"
  "float_literal (13 / 100) = 1170935903116329 / 9007199254740992"
  "float_literal (1 / 40) = 3602879701896397 / 144115188075855872"
  "float_literal (1 / 50) = 5764607523034235 / 288230376151711744"
  "float_literal (2 / 25) = 5764607523034235 / 72057594037927936"
  "float_literal (1 / 10) = 3602879701896397 / 36028797018963968"
  "float_literal (107 / 400) = 4818851601286431 / 18014398509481984"
  "float_of_int 10000 = 10000"
  "fdiv 10000 100 = 100"
  "fadd 1 0 = 1"
  "fmul 100 1 = 100"
  "fmul 1000 (1170935903116329 / 9007199254740992) = 130"
  "fsub 1 (3602879701896397 / 144115188075855872) = 8782019273372467 / 9007199254740992"
  "fmul 130 (8782019273372467 / 9007199254740992) = 507 / 4"
  "fsub (507 / 4) 100 = 107 / 4"
  "fdiv (107 / 4) 100 = 4818851601286431 / 18014398509481984"
  "float_of_int 14105 = 14105"
  "fdiv 14105 100 = 2481377841564877 / 17592186044416"
  "fmul (2481377841564877 / 17592186044416) 1 = 2481377841564877 / 17592186044416"
  "fmul 1116 (1261007895663739 / 9007199254740992) = 687150786894889 / 4398046511104"
  "fmul (687150786894889 / 4398046511104) (8782019273372467 / 9007199254740992) = 2679888068890067 / 17592186044416"
  "fsub (2679888068890067 / 17592186044416) (2481377841564877 / 17592186044416) = 99255113662595 / 8796093022208"
  "fdiv (99255113662595 / 8796093022208) (2481377841564877 / 17592186044416) = 2882303761517115 / 36028797018963968"
  "fadd 1 (3602879701896397 / 144115188075855872) = 2308094809027379 / 2251799813685248"
  "fmul 130 (2308094809027379 / 2251799813685248) = 533 / 4"
  "float_of_int 20000 = 20000"
  "fdiv 20000 100 = 200"
  "fsub 1 (5764607523034235 / 288230376151711744) = 2206763817411543 / 2251799813685248"
  "fmul 200 (2206763817411543 / 2251799813685248) = 196"
  "fsub 196 (533 / 4) = 251 / 4"
  "fdiv (251 / 4) (533 / 4) = 8483328378761685 / 18014398509481984"
  "fmul 980 (1261007895663739 / 9007199254740992) = 4827295850587751 / 35184372088832"
  "fmul (4827295850587751 / 35184372088832) (2308094809027379 / 2251799813685248) = 1236994561713111 / 8796093022208"
  "float_of_int 15785 = 15785"
  "fdiv 15785 100 = 5553853134222131 / 35184372088832"
  "fmul (5553853134222131 / 35184372088832) (2206763817411543 / 2251799813685248) = 680347008942211 / 4398046511104"
  "fsub (680347008942211 / 4398046511104) (1236994561713111 / 8796093022208) = 123699456171311 / 8796093022208"
  "fdiv (123699456171311 / 8796093022208) (1236994561713111 / 8796093022208) = 1801439850948197 / 18014398509481984"
  by (simp_all add: binary64_eval)

lemma roi_of_spec_example:
  "fdiv (fsub (fmul 130 (fsub 1 (float_literal (25 / 1000))))
              (fmul (fdiv (float_of_int 10000) 100) (fadd 1 0)))
        (fmul (fdiv (float_of_int 10000) 100) (fadd 1 0))
   = float_literal (2675 / 10000)"
  by (simp add: Let_def binary64_values)

text \<open>
  Rounding decides the gate.  With the default configuration, a floor of 1116 CNY and a
  listing at 141.05 USD, the exact quotient is the minimum 0.08, the computed ROI is just
  below the float \<open>0.08\<close>, and no signal is produced.  The same happens in direction B at a
  floor of 980 CNY and a listing at 157.85 USD.
\<close>

lemma csfloat_to_buff_gate_is_rounded:
  "compute_signal_for_listing (timedelta_hours 1)
     (redline_session\<lparr>buff_price_snapshots := [redline_snapshot\<lparr>snap_overall_min_price := 1116\<rparr>]\<rparr>)
     (redline_listing\<lparr>price_cents := 14105\<rparr>) default_config
   = (None,
      redline_session\<lparr>buff_price_snapshots := [redline_snapshot\<lparr>snap_overall_min_price := 1116\<rparr>]\<rparr>)"
  by (simp add: compute_signal_for_listing_def buff_item_by_name_def latest_snapshot_def
        redline_session_def redline_item_def redline_snapshot_def redline_listing_def
        default_config_def timedelta_hours_def Let_def binary64_values)

lemma buff_to_csfloat_gate_is_rounded:
  "compute_buff_to_csfloat_signal
     (redline_session\<lparr>buff_price_snapshots := [redline_snapshot\<lparr>snap_overall_min_price := 980\<rparr>]\<rparr>)
     ''AK-47 | Redline (Field-Tested)'' default_config
     (\<lambda>name. Some (redline_offer\<lparr>ldto_price_cents := 15785\<rparr>))
   = (None,
      redline_session\<lparr>buff_price_snapshots := [redline_snapshot\<lparr>snap_overall_min_price := 980\<rparr>]\<rparr>)"
  by (simp add: compute_buff_to_csfloat_signal_def buff_item_by_name_def latest_snapshot_def
        redline_session_def redline_item_def redline_snapshot_def redline_offer_def
        default_config_def Let_def binary64_values)

text \<open>
  Claim C3.  For a listing whose item is resolved and whose latest snapshot is not older
  than 24 hours, direction A computes, in float arithmetic,
  netBuy = listingPrice * (1 + buyFeeB), netSell = floorA * fxRate * (1 - sellFeeA) and
  ROI = (netSell - netBuy) / netBuy.  The listing is skipped when netBuy is not positive,
  no signal is produced when the ROI is below the direction-A minimum, and otherwise the
  signal carries that ROI and the two prices.  With listing price 100, buy fee 0, floor
  130 USD and sell fee 0.025 the ROI is the float 0.2675.
\<close>

theorem csfloat_to_buff_roi:
  assumes "buff_item_by_name s (lst_market_hash_name listing) = Some buff_item"
    and "latest_snapshot s (item_goods_id buff_item) = Some buff_snapshot"
    and "\<not> snap_timestamp buff_snapshot < utcnow - timedelta_hours 24"
  shows
   "let listing_price = fdiv (float_of_int (price_cents listing)) 100;
        net_buy = fmul listing_price (fadd 1 (csfloat_buy_fee_pct config));
        floor_usd = fmul (snap_overall_min_price buff_snapshot) (fx_cny_to_usd config);
        net_sell = fmul floor_usd (fsub 1 (buff_sell_fee_pct config));
        roi = fdiv (fsub net_sell net_buy) net_buy;
        result = compute_signal_for_listing utcnow s listing config
    in (net_buy \<le> 0 \<longrightarrow> result = (None, s))
       \<and> (0 < net_buy \<and> roi < min_roi_csfloat_to_buff config \<longrightarrow> result = (None, s))
       \<and> (0 < net_buy \<and> min_roi_csfloat_to_buff config \<le> roi \<longrightarrow>
            (\<exists>signal. fst result = Some signal \<and> obj_roi_pct signal = roi
               \<and> obj_csfloat_price_usd signal = Some listing_price
               \<and> obj_buff_floor_usd signal = Some floor_usd))
       \<and> (price_cents listing = 10000 \<and> csfloat_buy_fee_pct config = 0
            \<and> floor_usd = 130 \<and> buff_sell_fee_pct config = float_literal (25 / 1000) \<longrightarrow>
            roi = float_literal (2675 / 10000)
            \<and> (fst result \<noteq> None
                 \<longleftrightarrow> min_roi_csfloat_to_buff config \<le> float_literal (2675 / 10000)))"
proof -
  let ?price = "fdiv (float_of_int (price_cents listing)) 100"
  let ?net_buy = "fmul ?price (fadd 1 (csfloat_buy_fee_pct config))"
  let ?floor_usd = "fmul (snap_overall_min_price buff_snapshot) (fx_cny_to_usd config)"
  let ?net_sell = "fmul ?floor_usd (fsub 1 (buff_sell_fee_pct config))"
  let ?roi = "fdiv (fsub ?net_sell ?net_buy) ?net_buy"
  let ?result = "compute_signal_for_listing utcnow s listing config"
  have skip: "?net_buy \<le> 0 \<Longrightarrow> ?result = (None, s)"
    using assms by (simp add: compute_signal_for_listing_def Let_def)
  have low: "0 < ?net_buy \<Longrightarrow> ?roi < min_roi_csfloat_to_buff config \<Longrightarrow> ?result = (None, s)"
    using assms by (simp add: compute_signal_for_listing_def Let_def)
  have high: "\<exists>signal. fst ?result = Some signal \<and> obj_roi_pct signal = ?roi
               \<and> obj_csfloat_price_usd signal = Some ?price
               \<and> obj_buff_floor_usd signal = Some ?floor_usd"
    if "0 < ?net_buy" "min_roi_csfloat_to_buff config \<le> ?roi"
    using assms that
    by (auto simp: compute_signal_for_listing_def Let_def not_less not_le split: option.splits)
  have example: "?roi = float_literal (2675 / 10000) \<and> 0 < ?net_buy"
    if "price_cents listing = 10000" "csfloat_buy_fee_pct config = 0" "?floor_usd = 130"
      "buff_sell_fee_pct config = float_literal (25 / 1000)"
  proof -
    have "?net_buy = 100"
      unfolding that(1,2) by (simp add: Let_def binary64_values)
    moreover have "?roi = float_literal (2675 / 10000)"
      unfolding that using roi_of_spec_example by simp
    ultimately show ?thesis by simp
  qed
  have gate: "fst ?result \<noteq> None \<longleftrightarrow> min_roi_csfloat_to_buff config \<le> ?roi" if "0 < ?net_buy"
    using low[OF that] high[OF that] by (cases "min_roi_csfloat_to_buff config \<le> ?roi") auto
  show ?thesis
    unfolding Let_def using skip low high example gate by metis
qed

theorem csfloat_to_buff_roi_witness:
  "map_option obj_roi_pct
     (fst (compute_signal_for_listing (timedelta_hours 1) redline_session redline_listing
             example_config))
   = Some (float_literal (2675 / 10000))"
  using csfloat_to_buff_roi [of redline_session redline_listing redline_item redline_snapshot
          "timedelta_hours 1" example_config]
  by (auto simp: buff_item_by_name_def latest_snapshot_def redline_session_def redline_item_def
        redline_listing_def redline_snapshot_def example_config_def default_config_def
        timedelta_hours_def Let_def binary64_values)

text \<open>
  Claim C7.  For a watch-listed key with a resolved item, a snapshot and a cheapest
  listing, direction B computes, in float arithmetic,
  netBuy = floorA * fxRate * (1 + sellFeeA), with the market-A sell fee on the buy side,
  netSell = listingPrice * (1 - sellFeeB) and ROI = (netSell - netBuy) / netBuy.  A signal
  is produced exactly when netBuy is positive and the ROI reaches direction B's own
  minimum, and it carries that ROI and the prices.
\<close>

theorem buff_to_csfloat_roi:
  assumes "buff_item_by_name s market_hash_name = Some buff_item"
    and "latest_snapshot s (item_goods_id buff_item) = Some buff_snapshot"
    and "fetch_lowest_price_listing market_hash_name = Some csfloat_listing"
  shows
   "let floor_usd = fmul (snap_overall_min_price buff_snapshot) (fx_cny_to_usd config);
        net_buy = fmul floor_usd (fadd 1 (buff_sell_fee_pct config));
        listing_price = fdiv (float_of_int (ldto_price_cents csfloat_listing)) 100;
        net_sell = fmul listing_price (fsub 1 (csfloat_sell_fee_pct config));
        roi = fdiv (fsub net_sell net_buy) net_buy;
        result = compute_buff_to_csfloat_signal s market_hash_name config fetch_lowest_price_listing
    in (fst result \<noteq> None \<longleftrightarrow> 0 < net_buy \<and> min_roi_buff_to_csfloat config \<le> roi)
       \<and> (fst result = None \<longrightarrow> snd result = s)
       \<and> (\<forall>signal. fst result = Some signal \<longrightarrow>
             obj_roi_pct signal = roi
             \<and> obj_buff_floor_cny signal = Some (snap_overall_min_price buff_snapshot)
             \<and> obj_buff_floor_usd signal = Some floor_usd
             \<and> obj_csfloat_price_usd signal = Some listing_price)"
  using assms
  by (auto simp: compute_buff_to_csfloat_signal_def Let_def not_less not_le split: option.splits)

theorem buff_to_csfloat_roi_witness:
  "map_option obj_roi_pct
     (fst (compute_buff_to_csfloat_signal redline_session ''AK-47 | Redline (Field-Tested)''
             example_config redline_feed))
   = Some (8483328378761685 / 18014398509481984)"
  using buff_to_csfloat_roi [of redline_session "''AK-47 | Redline (Field-Tested)''" redline_item
          redline_snapshot redline_feed redline_offer example_config]
  by (auto simp: buff_item_by_name_def latest_snapshot_def redline_session_def redline_item_def
        redline_offer_def redline_feed_def redline_snapshot_def example_config_def
        default_config_def Let_def binary64_values)

text \<open>
  Claim C10.  Direction B reads no clock: whatever the age of the item's most recent
  snapshot, that snapshot is used and a signal is produced once the ROI gate is passed.
  Direction A, at the same clock reading, skips every listing of the item when the
  snapshot is older than 24 hours.
\<close>

theorem buff_to_csfloat_ignores_snapshot_age:
  assumes "buff_item_by_name s market_hash_name = Some buff_item"
    and "latest_snapshot s (item_goods_id buff_item) = Some buff_snapshot"
    and "snap_timestamp buff_snapshot = utcnow - age"
    and "fetch_lowest_price_listing market_hash_name = Some csfloat_listing"
    and "0 < fmul (fmul (snap_overall_min_price buff_snapshot) (fx_cny_to_usd config))
               (fadd 1 (buff_sell_fee_pct config))"
    and "min_roi_buff_to_csfloat config
           \<le> fdiv (fsub (fmul (fdiv (float_of_int (ldto_price_cents csfloat_listing)) 100)
                              (fsub 1 (csfloat_sell_fee_pct config)))
                        (fmul (fmul (snap_overall_min_price buff_snapshot) (fx_cny_to_usd config))
                              (fadd 1 (buff_sell_fee_pct config))))
                  (fmul (fmul (snap_overall_min_price buff_snapshot) (fx_cny_to_usd config))
                        (fadd 1 (buff_sell_fee_pct config)))"
  shows
   "(\<exists>signal. fst (compute_buff_to_csfloat_signal s market_hash_name config
                     fetch_lowest_price_listing) = Some signal
        \<and> obj_buff_floor_cny signal = Some (snap_overall_min_price buff_snapshot))
    \<and> (\<forall>listing. lst_market_hash_name listing = market_hash_name \<and> timedelta_hours 24 < age \<longrightarrow>
          compute_signal_for_listing utcnow s listing config = (None, s))"
proof -
  have "\<exists>signal. fst (compute_buff_to_csfloat_signal s market_hash_name config
                        fetch_lowest_price_listing) = Some signal
        \<and> obj_buff_floor_cny signal = Some (snap_overall_min_price buff_snapshot)"
    using assms
    by (auto simp: compute_buff_to_csfloat_signal_def Let_def not_less not_le split: option.splits)
  moreover have "compute_signal_for_listing utcnow s listing config = (None, s)"
    if "lst_market_hash_name listing = market_hash_name" "timedelta_hours 24 < age" for listing
    using assms(1-3) that by (simp add: compute_signal_for_listing_def)
  ultimately show ?thesis by blast
qed

theorem buff_to_csfloat_ignores_snapshot_age_witness:
  "fst (compute_buff_to_csfloat_signal redline_session ''AK-47 | Redline (Field-Tested)''
          example_config redline_feed) \<noteq> None
   \<and> compute_signal_for_listing (timedelta_hours 8760) redline_session redline_listing
        example_config = (None, redline_session)"
  using buff_to_csfloat_ignores_snapshot_age [of redline_session
          "''AK-47 | Redline (Field-Tested)''" redline_item redline_snapshot
          "timedelta_hours 8760" "timedelta_hours 8760" redline_feed redline_offer example_config]
  by (auto simp: buff_item_by_name_def latest_snapshot_def redline_session_def redline_item_def
        redline_offer_def redline_feed_def redline_snapshot_def example_config_def
        default_config_def redline_listing_def timedelta_hours_def Let_def binary64_values)

section \<open>Signal lifecycle\<close>

lemma flush_signals_append:
  "\<exists>ys. flush_signals now rows pend = rows @ ys \<and> length ys = length pend"
proof (induction pend arbitrary: rows)
  case Nil
  show ?case by simp
next
  case (Cons a pend)
  from Cons[of "rows @ [insert_signal now (next_id (map sig_id rows)) a]"]
  show ?case by auto
qed

lemma flush_signals_nth:
  "i < length rows \<Longrightarrow> flush_signals now rows pend ! i = rows ! i"
  using flush_signals_append[of now rows pend] by (auto simp: nth_append)


lemma sweep_rows:
  "arbitrage_signals (snd (deactivate_stale_signals utcnow ct s h))
     = flush_signals ct
         (map (\<lambda>g. if is_stale (utcnow - timedelta_hours h) g then g\<lparr>is_active := False\<rparr> else g)
            (arbitrage_signals s))
         (new_signals s)"
  by (simp add: deactivate_stale_signals_def commit_def Let_def)

lemma sweep_nth:
  "i < length (arbitrage_signals s) \<Longrightarrow>
   arbitrage_signals (snd (deactivate_stale_signals utcnow ct s h)) ! i
     = (if is_stale (utcnow - timedelta_hours h) (arbitrage_signals s ! i)
        then (arbitrage_signals s ! i)\<lparr>is_active := False\<rparr> else arbitrage_signals s ! i)"
  by (simp add: sweep_rows flush_signals_nth)





text \<open>
  Claim C6.  Every signal the ranking query returns is a stored signal with ROI at least
  the minimum-ROI argument, active when only active signals are asked for, and of the
  requested direction when one is given (an empty direction string is no filter); the
  result is sorted non-increasing in ROI and no longer than the limit.
\<close>

theorem top_signals_filtered_sorted_limited:
  "let result = get_top_signals s dir min_roi limit active_only
   in (\<forall>g \<in> set result.
         g \<in> set (arbitrage_signals s)
         \<and> (\<forall>r. min_roi = Some r \<longrightarrow> r \<le> roi_pct g)
         \<and> (active_only \<longrightarrow> is_active g)
         \<and> (\<forall>d. dir = Some d \<and> d \<noteq> [] \<longrightarrow> direction g = d))
      \<and> sorted_wrt (\<lambda>a b. roi_pct b \<le> roi_pct a) result
      \<and> length result \<le> limit"
proof -
  let ?q1 = "if active_only then filter is_active (arbitrage_signals s) else arbitrage_signals s"
  let ?q2 = "case dir of None \<Rightarrow> ?q1
             | Some d \<Rightarrow> if d = [] then ?q1 else filter (\<lambda>g. direction g = d) ?q1"
  let ?q3 = "case min_roi of None \<Rightarrow> ?q2 | Some r \<Rightarrow> filter (\<lambda>g. r \<le> roi_pct g) ?q2"
  let ?res = "get_top_signals s dir min_roi limit active_only"
  have res: "?res = take limit (sort_key (\<lambda>g. - roi_pct g) ?q3)"
    by (simp add: get_top_signals_def Let_def)
  have sub: "set ?res \<subseteq> set ?q3"
    unfolding res using set_take_subset[of limit "sort_key (\<lambda>g. - roi_pct g) ?q3"] by simp
  have q3: "g \<in> set (arbitrage_signals s) \<and> (\<forall>r. min_roi = Some r \<longrightarrow> r \<le> roi_pct g)
      \<and> (active_only \<longrightarrow> is_active g) \<and> (\<forall>d. dir = Some d \<and> d \<noteq> [] \<longrightarrow> direction g = d)"
    if "g \<in> set ?q3" for g
    using that by (auto split: option.splits if_splits)
  have "sorted (map (\<lambda>g. - roi_pct g) (sort_key (\<lambda>g. - roi_pct g) ?q3))"
    by (rule sorted_sort_key)
  then have "sorted_wrt (\<lambda>a b. roi_pct b \<le> roi_pct a) (sort_key (\<lambda>g. - roi_pct g) ?q3)"
    by (simp add: sorted_map)
  then have sorted: "sorted_wrt (\<lambda>a b. roi_pct b \<le> roi_pct a) ?res"
    unfolding res by (rule sorted_wrt_take)
  have len: "length ?res \<le> limit"
    unfolding res by simp
  show ?thesis
    unfolding Let_def using sub q3 sorted len by blast
qed

theorem top_signals_filtered_sorted_limited_witness:
  "map sig_id (get_top_signals signal_session None (Some (15 / 100)) 2 True) = [2]
   \<and> list_all (\<lambda>g. 15 / 100 \<le> roi_pct g \<and> is_active g)
        (get_top_signals signal_session None (Some (15 / 100)) 2 True)"
  using top_signals_filtered_sorted_limited [of signal_session None "Some (15 / 100)" 2 True]
  by (simp add: Let_def list_all_iff get_top_signals_def signal_session_def old_signal_def
        fresh_signal_def closed_signal_def)

section \<open>Signal identity\<close>

lemma first_index_Some:
  "first_index P xs = Some i \<Longrightarrow> i < length xs \<and> P (xs ! i) \<and> (\<forall>j < i. \<not> P (xs ! j))"
proof (induction xs arbitrary: i)
  case Nil
  then show ?case by simp
next
  case (Cons x xs)
  show ?case
  proof (cases "P x")
    case True
    with Cons.prems show ?thesis by simp
  next
    case False
    with Cons.prems obtain k where k: "first_index P xs = Some k" "i = Suc k" by auto
    from Cons.IH[OF k(1)] False k(2) show ?thesis
      by (auto simp: less_Suc_eq_0_disj)
  qed
qed

lemma first_index_None: "first_index P xs = None \<longleftrightarrow> (\<forall>x \<in> set xs. \<not> P x)"
  by (induction xs) auto

text \<open>
  Claim C9.  When direction A returns a loaded signal, that signal is an active
  direction-A row of this listing with only \<open>buff_floor_cny\<close>, \<open>buff_floor_usd\<close>,
  \<open>csfloat_price_usd\<close> and \<open>roi_pct\<close> replaced: creation time, acted-on flag, note and
  every other column are unchanged, and no other row changes.  The updated row is stale
  at a cutoff exactly when the original was, so the sweep deactivates it once 24 hours
  have passed since its creation.
\<close>

theorem update_in_place_keeps_creation_time:
  assumes "compute_signal_for_listing utcnow s listing config = (Some (Persistent g'), s')"
  shows "\<exists>i < length (arbitrage_signals s).
           let g = arbitrage_signals s ! i
           in is_active g \<and> direction g = ''CSFLOAT_TO_BUFF''
              \<and> csfloat_listing_id g = Some (lst_id listing)
              \<and> g' = g\<lparr>buff_floor_cny := buff_floor_cny g', buff_floor_usd := buff_floor_usd g',
                        csfloat_price_usd := csfloat_price_usd g', roi_pct := roi_pct g'\<rparr>
              \<and> created_at g' = created_at g \<and> acted_on g' = acted_on g
              \<and> sig_note g' = sig_note g \<and> is_active g' = is_active g
              \<and> s' = s\<lparr>arbitrage_signals := (arbitrage_signals s)[i := g']\<rparr>
              \<and> (\<forall>cutoff. is_stale cutoff g' = is_stale cutoff g)
              \<and> (\<forall>later commit_time. created_at g < later - timedelta_hours 24 \<longrightarrow>
                    arbitrage_signals (snd (deactivate_stale_signals later commit_time s' 24)) ! i
                      = g'\<lparr>is_active := False\<rparr>)"
proof -
  let ?P = "\<lambda>g. csfloat_listing_id g = Some (lst_id listing)
                \<and> direction g = ''CSFLOAT_TO_BUFF'' \<and> is_active g"
  from assms obtain i fl fu cp r where
    idx: "first_index ?P (arbitrage_signals s) = Some i"
    and g': "g' = (arbitrage_signals s ! i)\<lparr>buff_floor_cny := Some fl, buff_floor_usd := Some fu,
                      csfloat_price_usd := Some cp, roi_pct := r\<rparr>"
    and s': "s' = s\<lparr>arbitrage_signals := (arbitrage_signals s)[i := g']\<rparr>"
    by (auto simp: compute_signal_for_listing_def Let_def split: option.splits if_splits)
  from first_index_Some[OF idx] have i: "i < length (arbitrage_signals s)"
    and P: "?P (arbitrage_signals s ! i)" by auto
  have sweep: "arbitrage_signals (snd (deactivate_stale_signals later ct s' 24)) ! i
               = g'\<lparr>is_active := False\<rparr>"
    if "created_at (arbitrage_signals s ! i) < later - timedelta_hours 24" for later ct
    using that i P by (simp add: sweep_nth s' g' is_stale_def)
  show ?thesis
    using i P sweep unfolding Let_def
    by (intro exI[of _ i]) (simp add: g' s' is_stale_def)
qed

theorem update_in_place_keeps_creation_time_witness:
  "compute_signal_for_listing (timedelta_hours 23) signal_session redline_listing example_config
     = (Some (Persistent signal_session_updated_signal),
        signal_session\<lparr>arbitrage_signals := [signal_session_updated_signal, fresh_signal, closed_signal]\<rparr>)
   \<and> created_at signal_session_updated_signal = 0
   \<and> arbitrage_signals
        (snd (deactivate_stale_signals (timedelta_hours 25) (timedelta_hours 25)
           (signal_session\<lparr>arbitrage_signals :=
               [signal_session_updated_signal, fresh_signal, closed_signal]\<rparr>) 24)) ! 0
      = signal_session_updated_signal\<lparr>is_active := False\<rparr>"
proof -
  have run: "compute_signal_for_listing (timedelta_hours 23) signal_session redline_listing example_config
     = (Some (Persistent signal_session_updated_signal),
        signal_session\<lparr>arbitrage_signals := [signal_session_updated_signal, fresh_signal, closed_signal]\<rparr>)"
    by (simp add: compute_signal_for_listing_def buff_item_by_name_def latest_snapshot_def
          signal_session_def redline_item_def redline_snapshot_def redline_listing_def
          example_config_def default_config_def timedelta_hours_def old_signal_def
          signal_session_updated_signal_def Let_def binary64_values)
  from update_in_place_keeps_creation_time [OF run] obtain i where
    "i < length (arbitrage_signals signal_session)"
    "csfloat_listing_id (arbitrage_signals signal_session ! i) = Some (lst_id redline_listing)"
    "is_active (arbitrage_signals signal_session ! i)"
    "\<forall>later commit_time. created_at (arbitrage_signals signal_session ! i) < later - timedelta_hours 24 \<longrightarrow>
        arbitrage_signals (snd (deactivate_stale_signals later commit_time
          (signal_session\<lparr>arbitrage_signals := [signal_session_updated_signal, fresh_signal, closed_signal]\<rparr>) 24)) ! i
          = signal_session_updated_signal\<lparr>is_active := False\<rparr>"
    unfolding Let_def by blast
  moreover from this(1-3) have "i = 0"
    by (auto simp: signal_session_def less_Suc_eq numeral_3_eq_3 old_signal_def fresh_signal_def
          closed_signal_def redline_listing_def)
  ultimately show ?thesis
    using run by (simp add: signal_session_def old_signal_def signal_session_updated_signal_def
          timedelta_hours_def)
qed

lemma map_filter_append: "List.map_filter f (xs @ ys) = List.map_filter f xs @ List.map_filter f ys"
  by (simp add: List.map_filter_def)

lemma map_filter_cong_map:
  "map f xs = map f ys \<Longrightarrow> List.map_filter f xs = List.map_filter f ys"
proof (induction xs arbitrary: ys)
  case Nil
  then show ?case by simp
next
  case (Cons x xs)
  then obtain y ys' where ys: "ys = y # ys'" by (cases ys) auto
  with Cons.prems have "f x = f y" "map f xs = map f ys'" by auto
  with Cons.IH[of ys'] ys show ?case by (simp add: List.map_filter_simps split: option.splits)
qed

lemma set_map_filter: "set (List.map_filter f xs) = {y. \<exists>x \<in> set xs. f x = Some y}"
  by (induction xs) (auto simp: List.map_filter_simps split: option.splits)

lemma distinct_map_filter_iff:
  "distinct (List.map_filter f xs) \<longleftrightarrow> (\<forall>y. length (filter (\<lambda>x. f x = Some y) xs) \<le> 1)"
proof (induction xs)
  case Nil
  show ?case by (simp add: List.map_filter_simps)
next
  case (Cons x xs)
  show ?case
  proof (cases "f x")
    case None
    with Cons show ?thesis by (simp add: List.map_filter_simps)
  next
    case (Some y0)
    have "(\<forall>y. length (filter (\<lambda>x. f x = Some y) (x # xs)) \<le> 1)
        \<longleftrightarrow> filter (\<lambda>x. f x = Some y0) xs = [] \<and> (\<forall>y. length (filter (\<lambda>x. f x = Some y) xs) \<le> 1)"
      (is "?L \<longleftrightarrow> ?E \<and> ?R")
    proof
      assume L: ?L
      from L[rule_format, of y0] Some have ?E by simp
      moreover have ?R
      proof
        fix y
        from L[rule_format, of y] show "length (filter (\<lambda>x. f x = Some y) xs) \<le> 1"
          by (simp split: if_splits)
      qed
      ultimately show "?E \<and> ?R" ..
    next
      assume ER: "?E \<and> ?R"
      show ?L
      proof
        fix y
        from ER Some show "length (filter (\<lambda>x. f x = Some y) (x # xs)) \<le> 1"
          by (cases "y = y0") auto
      qed
    qed
    moreover have "filter (\<lambda>x. f x = Some y0) xs = [] \<longleftrightarrow> y0 \<notin> set (List.map_filter f xs)"
      by (auto simp: set_map_filter filter_empty_conv)
    ultimately show ?thesis using Cons Some by (simp add: List.map_filter_simps)
  qed
qed

lemma one_active_signal_per_listing_iff:
  "one_active_signal_per_listing rows \<longleftrightarrow>
     (\<forall>l. length (filter (\<lambda>g. is_active g \<and> direction g = ''CSFLOAT_TO_BUFF''
                              \<and> csfloat_listing_id g = Some l) rows) \<le> 1)"
proof -
  have "(\<lambda>g. signal_key g = Some l)
      = (\<lambda>g. is_active g \<and> direction g = ''CSFLOAT_TO_BUFF'' \<and> csfloat_listing_id g = Some l)" for l
    by (auto simp: signal_key_def)
  then show ?thesis
    by (simp add: one_active_signal_per_listing_def distinct_map_filter_iff)
qed

lemma keys_update:
  assumes "i < length rows" and "signal_key g' = signal_key (rows ! i)"
  shows "List.map_filter signal_key (rows[i := g']) = List.map_filter signal_key rows"
proof (rule map_filter_cong_map)
  show "map signal_key (rows[i := g']) = map signal_key rows"
    using assms by (simp add: map_update list_update_same_conv)
qed

lemma keys_flush:
  "List.map_filter signal_key (flush_signals now rows pend)
     = List.map_filter signal_key rows @ List.map_filter pending_key pend"
proof (induction pend arbitrary: rows)
  case Nil
  show ?case by (simp add: List.map_filter_simps)
next
  case (Cons a pend)
  have "signal_key (insert_signal now i a) = pending_key a" for i
    by (simp add: signal_key_def pending_key_def insert_signal_def)
  then show ?case
    by (simp add: Cons.IH map_filter_append List.map_filter_simps split: option.splits)
qed

lemma step_keys:
  "List.map_filter signal_key (arbitrage_signals (snd (compute_signal_for_listing t s l config)))
     = List.map_filter signal_key (arbitrage_signals s)"
proof -
  let ?P = "\<lambda>g. csfloat_listing_id g = Some (lst_id l)
                \<and> direction g = ''CSFLOAT_TO_BUFF'' \<and> is_active g"
  have upd: "List.map_filter signal_key
        ((arbitrage_signals s)[i := (arbitrage_signals s ! i)
            \<lparr>buff_floor_cny := a, buff_floor_usd := b, csfloat_price_usd := c, roi_pct := d\<rparr>])
      = List.map_filter signal_key (arbitrage_signals s)"
    if "first_index ?P (arbitrage_signals s) = Some i" for i a b c d
    using first_index_Some[OF that] by (intro keys_update) (simp_all add: signal_key_def)
  show ?thesis
    by (simp add: compute_signal_for_listing_def Let_def upd split: option.splits)
qed

lemma step_pending:
  "new_signals (snd (compute_signal_for_listing t s l config)) = new_signals s
   \<or> (\<exists>a. new_signals (snd (compute_signal_for_listing t s l config)) = new_signals s @ [a]
          \<and> pending_key a = Some (lst_id l)
          \<and> lst_id l \<notin> set (List.map_filter signal_key (arbitrage_signals s)))"
proof -
  let ?P = "\<lambda>g. csfloat_listing_id g = Some (lst_id l)
                \<and> direction g = ''CSFLOAT_TO_BUFF'' \<and> is_active g"
  have "lst_id l \<notin> set (List.map_filter signal_key (arbitrage_signals s))"
    if "first_index ?P (arbitrage_signals s) = None"
    using that by (auto simp: first_index_None set_map_filter signal_key_def split: if_splits)
  then show ?thesis
    by (auto simp: compute_signal_for_listing_def Let_def pending_key_def split: option.splits)
qed

lemma step_existing:
  assumes "\<exists>g \<in> set (arbitrage_signals s). csfloat_listing_id g = Some (lst_id l)
              \<and> direction g = ''CSFLOAT_TO_BUFF'' \<and> is_active g"
  shows "new_signals (snd (compute_signal_for_listing t s l config)) = new_signals s
       \<and> length (arbitrage_signals (snd (compute_signal_for_listing t s l config)))
           = length (arbitrage_signals s)"
  using assms
  by (auto simp: compute_signal_for_listing_def Let_def first_index_None split: option.splits)

lemma loop_keys:
  assumes "distinct (map lst_id listings)"
    and "distinct (List.map_filter signal_key (arbitrage_signals s)
                   @ List.map_filter pending_key (new_signals s))"
    and "set (List.map_filter pending_key (new_signals s)) \<inter> lst_id ` set listings = {}"
  shows "distinct
           (List.map_filter signal_key
              (arbitrage_signals (snd (csfloat_to_buff_loop clock k config listings (acc, s))))
            @ List.map_filter pending_key
                (new_signals (snd (csfloat_to_buff_loop clock k config listings (acc, s)))))"
  using assms
proof (induction listings arbitrary: k acc s)
  case Nil
  then show ?case by simp
next
  case (Cons l ls)
  let ?step = "compute_signal_for_listing (clock k) s l config"
  let ?s1 = "snd ?step"
  have d: "distinct (map lst_id ls)" and notin: "lst_id l \<notin> lst_id ` set ls"
    using Cons.prems(1) by auto
  have skip: ?case if "csfloat_to_buff_loop clock k config (l # ls) (acc, s)
                        = csfloat_to_buff_loop clock (Suc k) config ls (acc, s)"
    unfolding that using Cons.prems(2,3) by (intro Cons.IH[OF d]) auto
  have old_pending: "lst_id l \<notin> set (List.map_filter pending_key (new_signals s))"
    and rest_pending: "set (List.map_filter pending_key (new_signals s)) \<inter> lst_id ` set ls = {}"
    using Cons.prems(3) by auto
  have inv1: "distinct (List.map_filter signal_key (arbitrage_signals ?s1)
                   @ List.map_filter pending_key (new_signals ?s1))
      \<and> set (List.map_filter pending_key (new_signals ?s1)) \<inter> lst_id ` set ls = {}"
    using step_pending[of "clock k" s l config]
  proof (elim disjE exE conjE)
    assume "new_signals ?s1 = new_signals s"
    with Cons.prems(2) rest_pending show ?thesis by (simp add: step_keys)
  next
    fix a
    assume a: "new_signals ?s1 = new_signals s @ [a]" "pending_key a = Some (lst_id l)"
      "lst_id l \<notin> set (List.map_filter signal_key (arbitrage_signals s))"
    then have keys: "List.map_filter pending_key (new_signals ?s1)
        = List.map_filter pending_key (new_signals s) @ [lst_id l]"
      by (simp add: map_filter_append List.map_filter_simps)
    have "distinct (List.map_filter signal_key (arbitrage_signals ?s1)
                   @ List.map_filter pending_key (new_signals ?s1))"
      unfolding keys step_keys using Cons.prems(2) a(3) old_pending by auto
    moreover have "set (List.map_filter pending_key (new_signals ?s1)) \<inter> lst_id ` set ls = {}"
      unfolding keys using rest_pending notin by auto
    ultimately show ?thesis by simp
  qed
  have run: ?case if "csfloat_to_buff_loop clock k config (l # ls) (acc, s)
                        = csfloat_to_buff_loop clock (Suc k) config ls (acc', ?s1)" for acc'
    unfolding that using inv1 by (intro Cons.IH[OF d]) auto
  show ?case
  proof (cases "(case reference_quantity l of None \<Rightarrow> False | Some q \<Rightarrow> q < min_csfloat_listings config)
        \<or> (case watchers l of None \<Rightarrow> False | Some w \<Rightarrow> w < min_watchers config)")
    case True
    then show ?thesis by (intro skip) auto
  next
    case False
    obtain r s1 where step: "?step = (r, s1)" by (cases ?step)
    show ?thesis
    proof (cases r)
      case None
      with False step show ?thesis by (intro run[of acc]) auto
    next
      case (Some sg)
      with False step show ?thesis by (intro run[of "acc @ [sg]"]) auto
    qed
  qed
qed

lemma step_updates_existing:
  assumes "\<exists>g \<in> set (arbitrage_signals s). csfloat_listing_id g = Some (lst_id l)
              \<and> direction g = ''CSFLOAT_TO_BUFF'' \<and> is_active g"
    and "buff_item_by_name s (lst_market_hash_name l) = Some buff_item"
    and "latest_snapshot s (item_goods_id buff_item) = Some buff_snapshot"
    and "\<not> snap_timestamp buff_snapshot < t - timedelta_hours 24"
    and "0 < fmul (fdiv (float_of_int (price_cents l)) 100) (fadd 1 (csfloat_buy_fee_pct config))"
    and "min_roi_csfloat_to_buff config
           \<le> fdiv (fsub (fmul (fmul (snap_overall_min_price buff_snapshot) (fx_cny_to_usd config))
                              (fsub 1 (buff_sell_fee_pct config)))
                        (fmul (fdiv (float_of_int (price_cents l)) 100)
                              (fadd 1 (csfloat_buy_fee_pct config))))
                  (fmul (fdiv (float_of_int (price_cents l)) 100)
                        (fadd 1 (csfloat_buy_fee_pct config)))"
  shows "\<exists>i < length (arbitrage_signals s).
           csfloat_listing_id (arbitrage_signals s ! i) = Some (lst_id l)
           \<and> direction (arbitrage_signals s ! i) = ''CSFLOAT_TO_BUFF''
           \<and> is_active (arbitrage_signals s ! i)
           \<and> compute_signal_for_listing t s l config
               = (Some (Persistent ((arbitrage_signals s ! i)
                    \<lparr>buff_floor_cny := Some (snap_overall_min_price buff_snapshot),
                     buff_floor_usd :=
                       Some (fmul (snap_overall_min_price buff_snapshot) (fx_cny_to_usd config)),
                     csfloat_price_usd := Some (fdiv (float_of_int (price_cents l)) 100),
                     roi_pct :=
                       fdiv (fsub (fmul (fmul (snap_overall_min_price buff_snapshot)
                                            (fx_cny_to_usd config))
                                      (fsub 1 (buff_sell_fee_pct config)))
                                (fmul (fdiv (float_of_int (price_cents l)) 100)
                                      (fadd 1 (csfloat_buy_fee_pct config))))
                          (fmul (fdiv (float_of_int (price_cents l)) 100)
                                (fadd 1 (csfloat_buy_fee_pct config)))\<rparr>)),
                  s\<lparr>arbitrage_signals := (arbitrage_signals s)
                     [i := (arbitrage_signals s ! i)
                        \<lparr>buff_floor_cny := Some (snap_overall_min_price buff_snapshot),
                         buff_floor_usd :=
                           Some (fmul (snap_overall_min_price buff_snapshot) (fx_cny_to_usd config)),
                         csfloat_price_usd := Some (fdiv (float_of_int (price_cents l)) 100),
                         roi_pct :=
                           fdiv (fsub (fmul (fmul (snap_overall_min_price buff_snapshot)
                                                (fx_cny_to_usd config))
                                          (fsub 1 (buff_sell_fee_pct config)))
                                    (fmul (fdiv (float_of_int (price_cents l)) 100)
                                          (fadd 1 (csfloat_buy_fee_pct config))))
                              (fmul (fdiv (float_of_int (price_cents l)) 100)
                                    (fadd 1 (csfloat_buy_fee_pct config)))\<rparr>]\<rparr>)"
proof -
  let ?P = "\<lambda>g. csfloat_listing_id g = Some (lst_id l)
                \<and> direction g = ''CSFLOAT_TO_BUFF'' \<and> is_active g"
  from assms(1) have "first_index ?P (arbitrage_signals s) \<noteq> None"
    by (auto simp: first_index_None)
  then obtain i where idx: "first_index ?P (arbitrage_signals s) = Some i" by auto
  from first_index_Some[OF idx] have i: "i < length (arbitrage_signals s)"
    and P: "?P (arbitrage_signals s ! i)" by auto
  have "compute_signal_for_listing t s l config
      = (Some (Persistent ((arbitrage_signals s ! i)
                    \<lparr>buff_floor_cny := Some (snap_overall_min_price buff_snapshot),
                     buff_floor_usd :=
                       Some (fmul (snap_overall_min_price buff_snapshot) (fx_cny_to_usd config)),
                     csfloat_price_usd := Some (fdiv (float_of_int (price_cents l)) 100),
                     roi_pct :=
                       fdiv (fsub (fmul (fmul (snap_overall_min_price buff_snapshot)
                                            (fx_cny_to_usd config))
                                      (fsub 1 (buff_sell_fee_pct config)))
                                (fmul (fdiv (float_of_int (price_cents l)) 100)
                                      (fadd 1 (csfloat_buy_fee_pct config))))
                          (fmul (fdiv (float_of_int (price_cents l)) 100)
                                (fadd 1 (csfloat_buy_fee_pct config)))\<rparr>)),
                  s\<lparr>arbitrage_signals := (arbitrage_signals s)
                     [i := (arbitrage_signals s ! i)
                        \<lparr>buff_floor_cny := Some (snap_overall_min_price buff_snapshot),
                         buff_floor_usd :=
                           Some (fmul (snap_overall_min_price buff_snapshot) (fx_cny_to_usd config)),
                         csfloat_price_usd := Some (fdiv (float_of_int (price_cents l)) 100),
                         roi_pct :=
                           fdiv (fsub (fmul (fmul (snap_overall_min_price buff_snapshot)
                                                (fx_cny_to_usd config))
                                          (fsub 1 (buff_sell_fee_pct config)))
                                    (fmul (fdiv (float_of_int (price_cents l)) 100)
                                          (fadd 1 (csfloat_buy_fee_pct config))))
                              (fmul (fdiv (float_of_int (price_cents l)) 100)
                                    (fadd 1 (csfloat_buy_fee_pct config)))\<rparr>]\<rparr>)"
    using assms(2-6) idx by (simp add: compute_signal_for_listing_def Let_def not_less not_le)
  with i P show ?thesis by blast
qed

text \<open>
  Claim C4, as the code has it.  On a committed store with at most one active
  direction-A signal per listing id, a pass over listings with pairwise distinct ids
  leaves at most one active direction-A signal per listing id.  The computation for a
  listing that already has an active direction-A signal adds no pending signal and no
  row; when the item is resolved, the snapshot fresh and the gates passed, it returns an
  active direction-A row of this listing with the new floor, price and ROI written to
  it, and stores that row in the place of the old one.
\<close>

theorem pass_preserves_one_active_signal:
  assumes "one_active_signal_per_listing (arbitrage_signals s)"
    and "new_signals s = []"
    and "distinct (map lst_id listings)"
  shows "one_active_signal_per_listing
           (arbitrage_signals (snd (compute_csfloat_to_buff_signals clock s config listings)))
         \<and> (\<forall>l. length (filter (\<lambda>g. is_active g \<and> direction g = ''CSFLOAT_TO_BUFF''
                                     \<and> csfloat_listing_id g = Some l)
                         (arbitrage_signals
                            (snd (compute_csfloat_to_buff_signals clock s config listings)))) \<le> 1)
         \<and> (\<forall>utcnow listing.
              (\<exists>g \<in> set (arbitrage_signals s). csfloat_listing_id g = Some (lst_id listing)
                  \<and> direction g = ''CSFLOAT_TO_BUFF'' \<and> is_active g) \<longrightarrow>
              new_signals (snd (compute_signal_for_listing utcnow s listing config)) = new_signals s
              \<and> length (arbitrage_signals (snd (compute_signal_for_listing utcnow s listing config)))
                  = length (arbitrage_signals s))
         \<and> (\<forall>utcnow listing buff_item buff_snapshot.
              (\<exists>g \<in> set (arbitrage_signals s). csfloat_listing_id g = Some (lst_id listing)
                  \<and> direction g = ''CSFLOAT_TO_BUFF'' \<and> is_active g)
              \<and> buff_item_by_name s (lst_market_hash_name listing) = Some buff_item
              \<and> latest_snapshot s (item_goods_id buff_item) = Some buff_snapshot
              \<and> \<not> snap_timestamp buff_snapshot < utcnow - timedelta_hours 24 \<longrightarrow>
              (let listing_price = fdiv (float_of_int (price_cents listing)) 100;
                   net_buy = fmul listing_price (fadd 1 (csfloat_buy_fee_pct config));
                   floor_usd = fmul (snap_overall_min_price buff_snapshot) (fx_cny_to_usd config);
                   net_sell = fmul floor_usd (fsub 1 (buff_sell_fee_pct config));
                   roi = fdiv (fsub net_sell net_buy) net_buy
               in 0 < net_buy \<and> min_roi_csfloat_to_buff config \<le> roi \<longrightarrow>
                  (\<exists>i < length (arbitrage_signals s).
                     csfloat_listing_id (arbitrage_signals s ! i) = Some (lst_id listing)
                     \<and> direction (arbitrage_signals s ! i) = ''CSFLOAT_TO_BUFF''
                     \<and> is_active (arbitrage_signals s ! i)
                     \<and> compute_signal_for_listing utcnow s listing config
                         = (Some (Persistent ((arbitrage_signals s ! i)
                              \<lparr>buff_floor_cny := Some (snap_overall_min_price buff_snapshot),
                               buff_floor_usd := Some floor_usd,
                               csfloat_price_usd := Some listing_price,
                               roi_pct := roi\<rparr>)),
                            s\<lparr>arbitrage_signals := (arbitrage_signals s)
                               [i := (arbitrage_signals s ! i)
                                  \<lparr>buff_floor_cny := Some (snap_overall_min_price buff_snapshot),
                                   buff_floor_usd := Some floor_usd,
                                   csfloat_price_usd := Some listing_price,
                                   roi_pct := roi\<rparr>]\<rparr>))))"
proof -
  obtain acc s' where loop: "csfloat_to_buff_loop clock 0 config listings ([], s) = (acc, s')"
    by (cases "csfloat_to_buff_loop clock 0 config listings ([], s)")
  have "distinct (List.map_filter signal_key (arbitrage_signals s')
                  @ List.map_filter pending_key (new_signals s'))"
    using loop_keys[OF assms(3), of s clock 0 config "[]"] assms(1,2) loop
    by (simp add: one_active_signal_per_listing_def List.map_filter_simps)
  then have inv: "one_active_signal_per_listing
           (arbitrage_signals (snd (compute_csfloat_to_buff_signals clock s config listings)))"
    by (simp add: compute_csfloat_to_buff_signals_def loop commit_def
          one_active_signal_per_listing_def keys_flush)
  then have count: "\<forall>l. length (filter (\<lambda>g. is_active g \<and> direction g = ''CSFLOAT_TO_BUFF''
                                     \<and> csfloat_listing_id g = Some l)
                         (arbitrage_signals
                            (snd (compute_csfloat_to_buff_signals clock s config listings)))) \<le> 1"
    by (simp add: one_active_signal_per_listing_iff)
  have no_insert: "\<forall>utcnow listing.
              (\<exists>g \<in> set (arbitrage_signals s). csfloat_listing_id g = Some (lst_id listing)
                  \<and> direction g = ''CSFLOAT_TO_BUFF'' \<and> is_active g) \<longrightarrow>
              new_signals (snd (compute_signal_for_listing utcnow s listing config)) = new_signals s
              \<and> length (arbitrage_signals (snd (compute_signal_for_listing utcnow s listing config)))
                  = length (arbitrage_signals s)"
    using step_existing by blast
  have update: "\<forall>utcnow listing buff_item buff_snapshot.
              (\<exists>g \<in> set (arbitrage_signals s). csfloat_listing_id g = Some (lst_id listing)
                  \<and> direction g = ''CSFLOAT_TO_BUFF'' \<and> is_active g)
              \<and> buff_item_by_name s (lst_market_hash_name listing) = Some buff_item
              \<and> latest_snapshot s (item_goods_id buff_item) = Some buff_snapshot
              \<and> \<not> snap_timestamp buff_snapshot < utcnow - timedelta_hours 24 \<longrightarrow>
              (let listing_price = fdiv (float_of_int (price_cents listing)) 100;
                   net_buy = fmul listing_price (fadd 1 (csfloat_buy_fee_pct config));
                   floor_usd = fmul (snap_overall_min_price buff_snapshot) (fx_cny_to_usd config);
                   net_sell = fmul floor_usd (fsub 1 (buff_sell_fee_pct config));
                   roi = fdiv (fsub net_sell net_buy) net_buy
               in 0 < net_buy \<and> min_roi_csfloat_to_buff config \<le> roi \<longrightarrow>
                  (\<exists>i < length (arbitrage_signals s).
                     csfloat_listing_id (arbitrage_signals s ! i) = Some (lst_id listing)
                     \<and> direction (arbitrage_signals s ! i) = ''CSFLOAT_TO_BUFF''
                     \<and> is_active (arbitrage_signals s ! i)
                     \<and> compute_signal_for_listing utcnow s listing config
                         = (Some (Persistent ((arbitrage_signals s ! i)
                              \<lparr>buff_floor_cny := Some (snap_overall_min_price buff_snapshot),
                               buff_floor_usd := Some floor_usd,
                               csfloat_price_usd := Some listing_price,
                               roi_pct := roi\<rparr>)),
                            s\<lparr>arbitrage_signals := (arbitrage_signals s)
                               [i := (arbitrage_signals s ! i)
                                  \<lparr>buff_floor_cny := Some (snap_overall_min_price buff_snapshot),
                                   buff_floor_usd := Some floor_usd,
                                   csfloat_price_usd := Some listing_price,
                                   roi_pct := roi\<rparr>]\<rparr>)))"
    unfolding Let_def
    by (intro allI impI, elim conjE) (rule step_updates_existing, assumption+)
  from inv count no_insert update show ?thesis by (intro conjI)
qed

theorem pass_preserves_one_active_signal_witness:
  "one_active_signal_per_listing (arbitrage_signals signal_session)
   \<and> new_signals signal_session = []
   \<and> distinct (map lst_id [redline_listing])
   \<and> one_active_signal_per_listing
        (arbitrage_signals (snd (compute_csfloat_to_buff_signals steady_clock signal_session
           example_config [redline_listing])))
   \<and> roi_pct old_signal = 14 / 100
   \<and> compute_signal_for_listing (timedelta_hours 1) signal_session redline_listing example_config
       = (Some (Persistent signal_session_updated_signal),
          signal_session\<lparr>arbitrage_signals :=
             [signal_session_updated_signal, fresh_signal, closed_signal]\<rparr>)
   \<and> arbitrage_signals (snd (compute_csfloat_to_buff_signals steady_clock signal_session
           example_config [redline_listing]))
       = [signal_session_updated_signal, fresh_signal, closed_signal]"
  using pass_preserves_one_active_signal [of signal_session "[redline_listing]" steady_clock example_config]
  by (simp add: one_active_signal_per_listing_def signal_session_def old_signal_def
        fresh_signal_def closed_signal_def signal_key_def List.map_filter_simps
        compute_csfloat_to_buff_signals_def compute_signal_for_listing_def buff_item_by_name_def
        latest_snapshot_def redline_item_def redline_snapshot_def redline_listing_def
        example_config_def default_config_def timedelta_hours_def steady_clock_def commit_def
        signal_session_updated_signal_def Let_def binary64_values)

text \<open>
  Claim C4 as stated fails for a pass that is handed the same listing twice: the signal
  added for the first occurrence is pending, the session does not autoflush, the lookup
  for the second occurrence finds nothing, and the commit inserts two active signals for
  the listing.
\<close>

theorem repeated_listing_inserts_two_signals:
  "one_active_signal_per_listing (arbitrage_signals redline_session)
   \<and> map csfloat_listing_id
        (arbitrage_signals (snd (compute_csfloat_to_buff_signals steady_clock redline_session
           example_config [redline_listing, redline_listing]))) = [Some 7, Some 7]
   \<and> map is_active
        (arbitrage_signals (snd (compute_csfloat_to_buff_signals steady_clock redline_session
           example_config [redline_listing, redline_listing]))) = [True, True]
   \<and> \<not> one_active_signal_per_listing
        (arbitrage_signals (snd (compute_csfloat_to_buff_signals steady_clock redline_session
           example_config [redline_listing, redline_listing])))"
  by (simp add: one_active_signal_per_listing_def compute_csfloat_to_buff_signals_def
        compute_signal_for_listing_def buff_item_by_name_def latest_snapshot_def
        redline_session_def redline_item_def redline_snapshot_def redline_listing_def
        example_config_def default_config_def timedelta_hours_def steady_clock_def
        commit_def insert_signal_def next_id_def signal_key_def List.map_filter_simps
        Let_def binary64_values)

end
